theory Spec2Isabelle
  imports Main
begin

section \<open>JavaScript values\<close>

text \<open>
  The values that flow through \<open>routes/api.js\<close>: cached payloads, JSON bodies of upstream
  responses and the objects handed to \<open>res.json\<close>. An object is the list of its
  properties in insertion order. Numbers are the integers the routes inspect (status codes,
  error codes, millisecond counts); fractional numbers and \<open>NaN\<close> are not represented.
\<close>

datatype js_value =
    JUndefined
  | JNull
  | JBool bool
  | JNum int
  | JStr string
  | JArr "js_value list"
  | JObj "(string \<times> js_value) list"

text \<open>JavaScript truthiness, as used by \<open>if (cachedData)\<close> and by \<open>a || b\<close>.\<close>

fun truthy :: "js_value \<Rightarrow> bool" where
  "truthy JUndefined = False"
| "truthy JNull = False"
| "truthy (JBool b) = b"
| "truthy (JNum n) = (n \<noteq> 0)"
| "truthy (JStr s) = (s \<noteq> [])"
| "truthy (JArr xs) = True"
| "truthy (JObj ps) = True"

definition js_or :: "js_value \<Rightarrow> js_value \<Rightarrow> js_value" where
  "js_or a b = (if truthy a then a else b)"

text \<open>
  What \<open>JSON.stringify\<close> keeps of a value, and so what \<open>res.json\<close> puts into the body it
  sends: a property whose value is \<open>undefined\<close> is left out, an \<open>undefined\<close> array element
  becomes \<open>null\<close>.
\<close>

fun wire :: "js_value \<Rightarrow> js_value"
  and wire_properties :: "(string \<times> js_value) list \<Rightarrow> (string \<times> js_value) list"
  and wire_elements :: "js_value list \<Rightarrow> js_value list" where
  "wire (JObj ps) = JObj (wire_properties ps)"
| "wire (JArr xs) = JArr (wire_elements xs)"
| "wire JUndefined = JUndefined"
| "wire JNull = JNull"
| "wire (JBool b) = JBool b"
| "wire (JNum n) = JNum n"
| "wire (JStr s) = JStr s"
| "wire_properties [] = []"
| "wire_properties (p # ps) =
     (if snd p = JUndefined then wire_properties ps else (fst p, wire (snd p)) # wire_properties ps)"
| "wire_elements [] = []"
| "wire_elements (x # xs) = (if x = JUndefined then JNull else wire x) # wire_elements xs"

text \<open>\<open>Object.keys\<close> of a value.\<close>

fun object_keys :: "js_value \<Rightarrow> string list" where
  "object_keys (JObj ps) = map fst ps"
| "object_keys _ = []"

text \<open>
  A string that may be \<open>undefined\<close> (a query parameter, an environment variable, the
  \<open>message\<close> of a thrown value): \<open>None\<close> is \<open>undefined\<close>. The empty string is falsy.
\<close>

fun str_truthy :: "string option \<Rightarrow> bool" where
  "str_truthy None = False"
| "str_truthy (Some s) = (s \<noteq> [])"

definition or_str :: "string option \<Rightarrow> string option \<Rightarrow> string option" where
  "or_str a b = (if str_truthy a then a else b)"

text \<open>\<open>a || 'literal'\<close> with a non-empty literal: always a string.\<close>

fun or_default :: "string option \<Rightarrow> string \<Rightarrow> string" where
  "or_default None d = d"
| "or_default (Some s) d = (if s \<noteq> [] then s else d)"

fun opt_js :: "string option \<Rightarrow> js_value" where
  "opt_js None = JUndefined"
| "opt_js (Some s) = JStr s"

section \<open>The in-memory cache\<close>

text \<open>
  \<open>const cache = new Map()\<close> holds objects \<open>{ data, timestamp }\<close>. The state of the
  module is the map together with two logs that only record what happened: every
  \<open>cache.set\<close> and \<open>cache.delete\<close> in order, and every outbound call in order.
\<close>

record cache_entry =
  data :: js_value
  timestamp :: int

datatype cache_op = CacheSet string | CacheDelete string

datatype upstream_call = DuneQuery string | HttpGet string

record world =
  cache :: "string \<rightharpoonup> cache_entry"
  cache_ops :: "cache_op list"
  upstream_calls :: "upstream_call list"

definition CACHE_TTL :: int where
  "CACHE_TTL = 6 * 60 * 60 * 1000"

definition getCacheKey :: "string \<Rightarrow> string \<Rightarrow> string" where
  "getCacheKey endpoint queryId = endpoint @ ''_'' @ queryId"

text \<open>
  \<open>getCachedData(key)\<close>; \<open>now\<close> is the value of \<open>Date.now()\<close> read by the call. The
  result is the returned value (\<open>JNull\<close> for \<open>null\<close>) and the state afterwards.
\<close>

definition getCachedData :: "string \<Rightarrow> int \<Rightarrow> world \<Rightarrow> js_value \<times> world" where
  "getCachedData key now w =
     (case cache w key of
        Some cached \<Rightarrow>
          if now - timestamp cached < CACHE_TTL then (data cached, w)
          else (JNull, w\<lparr>cache := (cache w)(key := None),
                          cache_ops := cache_ops w @ [CacheDelete key]\<rparr>)
      | None \<Rightarrow> (JNull, w))"

definition setCachedData :: "string \<Rightarrow> js_value \<Rightarrow> int \<Rightarrow> world \<Rightarrow> world" where
  "setCachedData key dat now w =
     w\<lparr>cache := (cache w)(key \<mapsto> \<lparr>data = dat, timestamp = now\<rparr>),
       cache_ops := cache_ops w @ [CacheSet key]\<rparr>"

section \<open>Thrown values and string conversion\<close>

text \<open>
  What a \<open>catch (error)\<close> block of the routes reads from the thrown value:
  \<open>error.message\<close>, \<open>error.response?.status\<close> (a status number when there is one) and
  \<open>error.response?.data?.error\<close>.
\<close>

record js_error =
  message :: "string option"
  response_status :: "nat option"
  response_error :: js_value

definition new_Error :: "string \<Rightarrow> js_error" where
  "new_Error msg = \<lparr>message = Some msg, response_status = None, response_error = JUndefined\<rparr>"

definition digit_char :: "nat \<Rightarrow> char" where
  "digit_char d = ''0123456789'' ! d"

function show_nat :: "nat \<Rightarrow> string" where
  "show_nat n = (if n < 10 then [digit_char n] else show_nat (n div 10) @ [digit_char (n mod 10)])"
  by pat_completeness auto
termination
  by (relation "measure (\<lambda>n. n)") auto

declare show_nat.simps [simp del]

text \<open>
  A number in a template literal. A JavaScript number is a double: an integer \<open>a\<close> written
  in JSON or in the code stands for the double nearest to it (ties to the even mantissa,
  \<open>Infinity\<close> from \<open>2^1024 - 2^970\<close> on), which \<open>to_double\<close> gives as \<open>Some\<close> integer or as
  \<open>None\<close> for \<open>Infinity\<close>. Below \<open>10^21\<close> the number is printed in full; from \<open>10^21\<close> on
  it is printed as the fewest digits that still read back as the same double, the nearest
  such digits when several do, followed by the exponent, as in \<open>1.1805916207174113e+21\<close>.
\<close>

function show_digits :: "int \<Rightarrow> string" where
  "show_digits n =
     (if n < 10 then [digit_char (nat n)]
      else show_digits (n div 10) @ [digit_char (nat (n mod 10))])"
  by pat_completeness auto
termination
  by (relation "measure nat") auto

declare show_digits.simps [simp del]

function bit_length :: "int \<Rightarrow> nat" where
  "bit_length n = (if n \<le> 0 then 0 else Suc (bit_length (n div 2)))"
  by pat_completeness auto
termination
  by (relation "measure nat") auto

declare bit_length.simps [simp del]

definition to_double :: "int \<Rightarrow> int option" where
  "to_double a =
     (if a < 2 ^ 53 then Some a
      else (let u = 2 ^ (bit_length a - 53);
                q = a div u;
                r = a mod u;
                m = (if u div 2 < r \<or> (r = u div 2 \<and> odd q) then q + 1 else q)
            in if 2 ^ 1024 \<le> m * u then None else Some (m * u)))"

text \<open>
  Whether the decimal value \<open>v\<close> reads back as the double \<open>x\<close>, for \<open>x\<close> of \<open>2^53\<close> or more:
  \<open>v\<close> lies between the midpoints to the two neighbouring doubles, a midpoint counting
  when the mantissa of \<open>x\<close> is even.
\<close>

definition reads_back :: "int \<Rightarrow> int \<Rightarrow> bool" where
  "reads_back x v =
     (let sh = bit_length x - 53;
          m = x div 2 ^ sh;
          up = 2 ^ (sh - 1);
          down = (if m = 2 ^ 52 then 2 ^ (sh - 2) else 2 ^ (sh - 1))
      in if even m then x - down \<le> v \<and> v \<le> x + up
         else x - down < v \<and> v < x + up)"

text \<open>The \<open>k\<close>-digit integer whose value at the scale of \<open>x\<close> reads back as \<open>x\<close>, if there is one.\<close>

definition digits_of_length :: "int \<Rightarrow> nat \<Rightarrow> int option" where
  "digits_of_length x k =
     (let t = 10 ^ (length (show_digits x) - k);
          s1 = x div t;
          s2 = s1 + 1;
          ok1 = reads_back x (s1 * t);
          ok2 = reads_back x (s2 * t)
      in if ok1 \<and> ok2
         then (if x - s1 * t < s2 * t - x then Some s1
               else if s2 * t - x < x - s1 * t then Some s2
               else if even s1 then Some s1 else Some s2)
         else if ok1 then Some s1
         else if ok2 then Some s2
         else None)"

definition exponent_string :: "int \<Rightarrow> string" where
  "exponent_string x =
     (case List.find (\<lambda>k. digits_of_length x k \<noteq> None) [1..<18] of
        None \<Rightarrow> show_digits x
      | Some k \<Rightarrow>
          (case digits_of_length x k of
             None \<Rightarrow> show_digits x
           | Some s \<Rightarrow>
               if s = 10 ^ k then ''1e+'' @ show_nat (length (show_digits x))
               else (case show_digits s of
                       [] \<Rightarrow> []
                     | d # ds \<Rightarrow>
                         d # (if ds = [] then [] else ''.'' @ ds)
                         @ ''e+'' @ show_nat (length (show_digits x) - 1))))"

definition number_string :: "int \<Rightarrow> string" where
  "number_string a =
     (case to_double a of
        None \<Rightarrow> ''Infinity''
      | Some x \<Rightarrow> if x < 10 ^ 21 then show_digits x else exponent_string x)"

definition show_int :: "int \<Rightarrow> string" where
  "show_int i = (if i < 0 then ''-'' @ number_string (- i) else number_string i)"

fun join_with :: "string \<Rightarrow> string list \<Rightarrow> string" where
  "join_with sep [] = []"
| "join_with sep [x] = x"
| "join_with sep (x # y # ys) = x @ sep @ join_with sep (y # ys)"

text \<open>
  String conversion inside a template literal. An array joins its elements with commas,
  \<open>null\<close> and \<open>undefined\<close> elements giving the empty string.
\<close>

fun js_to_string :: "js_value \<Rightarrow> string" where
  "js_to_string JUndefined = ''undefined''"
| "js_to_string JNull = ''null''"
| "js_to_string (JBool b) = (if b then ''true'' else ''false'')"
| "js_to_string (JNum n) = show_int n"
| "js_to_string (JStr s) = s"
| "js_to_string (JArr xs) =
     join_with '','' (map (\<lambda>x. if x = JUndefined \<or> x = JNull then [] else js_to_string x) xs)"
| "js_to_string (JObj ps) = ''[object Object]''"

text \<open>
  Reading a property \<open>v.p\<close>: a \<open>TypeError\<close> on \<open>null\<close> and \<open>undefined\<close> (V8's wording),
  \<open>undefined\<close> when an object lacks the property. The routes read only \<open>code\<close> and
  \<open>message\<close>, which no string, number, boolean or array has.
\<close>

definition type_error_prop :: "string \<Rightarrow> string \<Rightarrow> js_error" where
  "type_error_prop what p =
     new_Error (''Cannot read properties of '' @ what @ '' (reading '' @ [CHR 0x27] @ p @ [CHR 0x27] @ '')'')"

fun get_prop :: "js_value \<Rightarrow> string \<Rightarrow> js_error + js_value" where
  "get_prop JUndefined p = Inl (type_error_prop ''undefined'' p)"
| "get_prop JNull p = Inl (type_error_prop ''null'' p)"
| "get_prop (JObj ps) p = Inr (case map_of ps p of Some v \<Rightarrow> v | None \<Rightarrow> JUndefined)"
| "get_prop (JBool b) p = Inr JUndefined"
| "get_prop (JNum n) p = Inr JUndefined"
| "get_prop (JStr s) p = Inr JUndefined"
| "get_prop (JArr xs) p = Inr JUndefined"

section \<open>Requests, replies, configuration and the outside world\<close>

text \<open>\<open>res.json(body)\<close> replies with status 200, \<open>res.status(n).json(body)\<close> with \<open>n\<close>.\<close>

record http_reply =
  status_code :: nat
  json_body :: js_value

definition res_json :: "js_value \<Rightarrow> http_reply" where
  "res_json b = \<lparr>status_code = 200, json_body = b\<rparr>"

definition res_status_json :: "nat \<Rightarrow> js_value \<Rightarrow> http_reply" where
  "res_status_json n b = \<lparr>status_code = n, json_body = b\<rparr>"

text \<open>
  \<open>process.env\<close>, and the parts of a request the routes read: \<open>req.query.queryId\<close>,
  \<open>req.body.queryId\<close> and \<open>req.params.address\<close>. Query identifiers are strings.
\<close>

record env =
  DUNE_API_KEY :: "string option"
  DEPOSITORS_QUERY_ID :: "string option"
  TVL_QUERY_ID :: "string option"
  DEPOSITS_TIMELINE_QUERY_ID :: "string option"

record request =
  query_queryId :: "string option"
  body_queryId :: "string option"
  params_address :: string

text \<open>
  The clock readings of one request: \<open>Date.now()\<close> inside \<open>getCachedData\<close>,
  \<open>new Date().toISOString()\<close> when the reply is built, and \<open>Date.now()\<close> inside
  \<open>setCachedData\<close>.
\<close>

record clock =
  now_get :: int
  now_iso :: string
  now_set :: int

text \<open>
  The Dune SDK call \<open>duneClient.getLatestResult({ queryId: parseInt(queryId) })\<close> is the
  outside world: for the query identifier it is given it throws or returns a result, of which
  the code reads \<open>result?.rows\<close> and \<open>execution_time_millis\<close>.
\<close>

record sdk_result =
  result_rows :: "js_value list option"
  execution_time_millis :: js_value

type_synonym dune_sdk = "string \<Rightarrow> js_error + sdk_result"

record dune_data =
  rows :: "js_value list"
  execution_time :: js_value
  query_id :: string

definition fetchDuneQuery :: "dune_sdk \<Rightarrow> string \<Rightarrow> world \<Rightarrow> (js_error + dune_data) \<times> world" where
  "fetchDuneQuery sdk queryId w =
     (let w' = w\<lparr>upstream_calls := upstream_calls w @ [DuneQuery queryId]\<rparr>
      in case sdk queryId of
           Inl error \<Rightarrow> (Inl error, w')
         | Inr query_result \<Rightarrow>
             (Inr \<lparr>rows = (case result_rows query_result of Some rs \<Rightarrow> rs | None \<Rightarrow> []),
                   execution_time = execution_time_millis query_result,
                   query_id = queryId\<rparr>, w'))"

text \<open>
  \<open>node-fetch\<close>: the call throws or resolves to a response; \<open>response.json()\<close> throws
  when the body is not JSON. \<open>response.ok\<close> is the Fetch standard's: a status in 200..299.
\<close>

record fetch_response =
  status :: nat
  statusText :: string
  json :: "js_error + js_value"

type_synonym http_fetch = "string \<Rightarrow> js_error + fetch_response"

definition ok :: "fetch_response \<Rightarrow> bool" where
  "ok response = (200 \<le> status response \<and> status response < 300)"

section \<open>Middleware and route handlers\<close>

text \<open>
  \<open>checkDuneApiKey\<close>: \<open>duneClient\<close> is set exactly when \<open>DUNE_API_KEY\<close> is truthy, so the
  test \<open>!DUNE_API_KEY || !duneClient\<close> is the test of the key. The middleware either
  answers itself (\<open>Some\<close> reply, the handler does not run) or calls \<open>next()\<close> (\<open>None\<close>).
\<close>

definition not_configured :: http_reply where
  "not_configured =
     res_status_json 500 (JObj
       [(''error'', JStr ''Dune API key not configured''),
        (''message'', JStr ''Please set DUNE_API_KEY in your environment variables'')])"

definition checkDuneApiKey :: "env \<Rightarrow> http_reply option" where
  "checkDuneApiKey e = (if \<not> str_truthy (DUNE_API_KEY e) then Some not_configured else None)"

text \<open>The reply object built after a successful Dune fetch.\<close>

definition dune_success :: "dune_data \<Rightarrow> string \<Rightarrow> string \<Rightarrow> js_value" where
  "dune_success d queryId stamp =
     JObj [(''success'', JBool True),
           (''data'', JArr (rows d)),
           (''query_id'', JStr queryId),
           (''execution_time'', execution_time d),
           (''timestamp'', JStr stamp)]"

text \<open>The \<open>catch\<close> block of the cached routes: status 500.\<close>

definition catch_500 :: "string \<Rightarrow> js_error \<Rightarrow> string \<Rightarrow> http_reply" where
  "catch_500 what error stamp =
     res_status_json 500 (JObj
       [(''error'', JStr what),
        (''message'', JStr (or_default (message error) ''Unknown error occurred'')),
        (''timestamp'', JStr stamp)])"

text \<open>
  The \<open>catch\<close> block of the uncached Dune routes. The status is
  \<open>error.response?.status || 500\<close>. \<open>res.status(n).json(..)\<close> sends a reply only for a
  status from 100 to 999; for any other it throws a \<open>RangeError\<close> inside the \<open>catch\<close>
  block, the handler ends with that error and no reply is sent: \<open>None\<close>.
\<close>

definition error_status :: "js_error \<Rightarrow> nat" where
  "error_status error =
     (case response_status error of Some n \<Rightarrow> if n \<noteq> 0 then n else 500 | None \<Rightarrow> 500)"

definition catch_response :: "string \<Rightarrow> js_error \<Rightarrow> string \<Rightarrow> http_reply option" where
  "catch_response what error stamp =
     (if 100 \<le> error_status error \<and> error_status error \<le> 999
      then Some (res_status_json (error_status error)
             (JObj
               [(''error'', JStr what),
                (''message'', js_or (response_error error) (opt_js (message error))),
                (''timestamp'', JStr stamp)]))
      else None)"

definition missing_query_id :: "string \<Rightarrow> http_reply" where
  "missing_query_id msg =
     res_status_json 400 (JObj [(''error'', JStr ''Missing query ID''), (''message'', JStr msg)])"

text \<open>\<open>GET /api/depositors\<close>, after the middleware.\<close>

definition depositors_handler ::
  "env \<Rightarrow> request \<Rightarrow> dune_sdk \<Rightarrow> clock \<Rightarrow> world \<Rightarrow> http_reply \<times> world" where
  "depositors_handler e req sdk clk w =
     (let queryId = or_default (or_str (query_queryId req) (DEPOSITORS_QUERY_ID e)) ''5253927'';
          cacheKey = getCacheKey ''depositors'' queryId;
          (cachedData, w1) = getCachedData cacheKey (now_get clk) w
      in if truthy cachedData then (res_json cachedData, w1)
         else (case fetchDuneQuery sdk queryId w1 of
                 (Inl error, w2) \<Rightarrow>
                   (catch_500 ''Failed to fetch depositors data'' error (now_iso clk), w2)
               | (Inr d, w2) \<Rightarrow>
                   (let response = dune_success d queryId (now_iso clk)
                    in (res_json response, setCachedData cacheKey response (now_set clk) w2))))"

definition depositors ::
  "env \<Rightarrow> request \<Rightarrow> dune_sdk \<Rightarrow> clock \<Rightarrow> world \<Rightarrow> http_reply \<times> world" where
  "depositors e req sdk clk w =
     (case checkDuneApiKey e of
        Some reply \<Rightarrow> (reply, w)
      | None \<Rightarrow> depositors_handler e req sdk clk w)"

text \<open>\<open>GET /api/tvl\<close>: the same shape, with a check of the query identifier.\<close>

definition tvl_handler ::
  "env \<Rightarrow> request \<Rightarrow> dune_sdk \<Rightarrow> clock \<Rightarrow> world \<Rightarrow> http_reply \<times> world" where
  "tvl_handler e req sdk clk w =
     (let queryId = or_default (or_str (query_queryId req) (TVL_QUERY_ID e)) ''5253928''
      in if queryId = []
         then (missing_query_id
                 ''Please provide queryId parameter or set TVL_QUERY_ID environment variable'', w)
         else
           (let cacheKey = getCacheKey ''tvl'' queryId;
                (cachedData, w1) = getCachedData cacheKey (now_get clk) w
            in if truthy cachedData then (res_json cachedData, w1)
               else (case fetchDuneQuery sdk queryId w1 of
                       (Inl error, w2) \<Rightarrow>
                         (catch_500 ''Failed to fetch TVL data'' error (now_iso clk), w2)
                     | (Inr d, w2) \<Rightarrow>
                         (let response = dune_success d queryId (now_iso clk)
                          in (res_json response,
                              setCachedData cacheKey response (now_set clk) w2)))))"

definition tvl ::
  "env \<Rightarrow> request \<Rightarrow> dune_sdk \<Rightarrow> clock \<Rightarrow> world \<Rightarrow> http_reply \<times> world" where
  "tvl e req sdk clk w =
     (case checkDuneApiKey e of
        Some reply \<Rightarrow> (reply, w)
      | None \<Rightarrow> tvl_handler e req sdk clk w)"

text \<open>
  \<open>GET /api/deposits-timeline\<close> and \<open>POST /api/query\<close>: the shared tail once the query
  identifier is known, then each route. The reply is \<open>None\<close> when the handler ends without
  sending one.
\<close>

definition uncached_fetch ::
  "string \<Rightarrow> string \<Rightarrow> dune_sdk \<Rightarrow> clock \<Rightarrow> world \<Rightarrow> http_reply option \<times> world" where
  "uncached_fetch what queryId sdk clk w =
     (case fetchDuneQuery sdk queryId w of
        (Inl error, w1) \<Rightarrow> (catch_response what error (now_iso clk), w1)
      | (Inr d, w1) \<Rightarrow> (Some (res_json (dune_success d queryId (now_iso clk))), w1))"

definition deposits_timeline_handler ::
  "env \<Rightarrow> request \<Rightarrow> dune_sdk \<Rightarrow> clock \<Rightarrow> world \<Rightarrow> http_reply option \<times> world" where
  "deposits_timeline_handler e req sdk clk w =
     (case or_str (query_queryId req) (DEPOSITS_TIMELINE_QUERY_ID e) of
        None \<Rightarrow>
          (Some (missing_query_id
             ''Please provide queryId parameter or set DEPOSITS_TIMELINE_QUERY_ID environment variable''), w)
      | Some queryId \<Rightarrow>
          if queryId = []
          then (Some (missing_query_id
                  ''Please provide queryId parameter or set DEPOSITS_TIMELINE_QUERY_ID environment variable''), w)
          else uncached_fetch ''Failed to fetch deposits timeline'' queryId sdk clk w)"

definition deposits_timeline ::
  "env \<Rightarrow> request \<Rightarrow> dune_sdk \<Rightarrow> clock \<Rightarrow> world \<Rightarrow> http_reply option \<times> world" where
  "deposits_timeline e req sdk clk w =
     (case checkDuneApiKey e of
        Some reply \<Rightarrow> (Some reply, w)
      | None \<Rightarrow> deposits_timeline_handler e req sdk clk w)"

definition query_handler ::
  "request \<Rightarrow> dune_sdk \<Rightarrow> clock \<Rightarrow> world \<Rightarrow> http_reply option \<times> world" where
  "query_handler req sdk clk w =
     (case body_queryId req of
        None \<Rightarrow> (Some (missing_query_id ''Please provide queryId in request body''), w)
      | Some queryId \<Rightarrow>
          if queryId = []
          then (Some (missing_query_id ''Please provide queryId in request body''), w)
          else uncached_fetch ''Failed to execute query'' queryId sdk clk w)"

definition query ::
  "env \<Rightarrow> request \<Rightarrow> dune_sdk \<Rightarrow> clock \<Rightarrow> world \<Rightarrow> http_reply option \<times> world" where
  "query e req sdk clk w =
     (case checkDuneApiKey e of
        Some reply \<Rightarrow> (Some reply, w)
      | None \<Rightarrow> query_handler req sdk clk w)"

text \<open>
  \<open>GET /api/lighter-exchange-stats\<close>. The object \<open>processedData\<close> is built from the
  upstream JSON with \<open>parseFloat\<close> comparisons of market volumes; that construction is
  the parameter \<open>build\<close>, which may throw (for a body that is \<open>null\<close>, say). The body of
  the \<open>try\<close> block comes first, then the route with its \<open>catch\<close>.
\<close>

definition exchange_stats_url :: string where
  "exchange_stats_url = ''https://mainnet.zklighter.elliot.ai/api/v1/exchangeStats''"

definition lighter_exchange_stats_try ::
  "http_fetch \<Rightarrow> (js_value \<Rightarrow> js_error + js_value) \<Rightarrow> js_error + http_reply" where
  "lighter_exchange_stats_try fetch build =
     (case fetch exchange_stats_url of
        Inl error \<Rightarrow> Inl error
      | Inr response \<Rightarrow>
          if \<not> ok response
          then Inl (new_Error (''Lighter API error: '' @ show_nat (status response) @ '' ''
                                 @ statusText response))
          else (case json response of
                  Inl error \<Rightarrow> Inl error
                | Inr d \<Rightarrow>
                    (case build d of
                       Inl error \<Rightarrow> Inl error
                     | Inr processedData \<Rightarrow> Inr (res_json processedData))))"

definition lighter_exchange_stats ::
  "http_fetch \<Rightarrow> (js_value \<Rightarrow> js_error + js_value) \<Rightarrow> world \<Rightarrow> http_reply \<times> world" where
  "lighter_exchange_stats fetch build w =
     (let w1 = w\<lparr>upstream_calls := upstream_calls w @ [HttpGet exchange_stats_url]\<rparr>
      in case lighter_exchange_stats_try fetch build of
           Inr reply \<Rightarrow> (reply, w1)
         | Inl error \<Rightarrow>
             (res_status_json 500 (JObj
                [(''error'', JStr ''Failed to fetch exchange statistics''),
                 (''details'', opt_js (message error))]), w1))"

text \<open>
  \<open>GET /api/lighter-account/:address\<close>. The test \<open>/^0x[a-fA-F0-9]{40}$/\<close> first: without
  the \<open>m\<close> flag, \<open>^\<close> and \<open>$\<close> are the two ends of the string.
\<close>

definition is_hex :: "char \<Rightarrow> bool" where
  "is_hex c = (c \<in> set ''abcdefABCDEF0123456789'')"

fun valid_address :: "string \<Rightarrow> bool" where
  "valid_address (c0 # c1 # rest) =
     (c0 = CHR ''0'' \<and> c1 = CHR ''x'' \<and> length rest = 40 \<and> list_all is_hex rest)"
| "valid_address _ = False"

definition account_url :: "string \<Rightarrow> string" where
  "account_url address =
     ''https://mainnet.zklighter.elliot.ai/api/v1/account?by=l1_address&value='' @ address"

text \<open>The \<open>throw new Error(...)\<close> of a response that is not ok; reading \<open>errorData.message\<close> may itself throw.\<close>

definition throw_lighter :: "fetch_response \<Rightarrow> js_value \<Rightarrow> js_error" where
  "throw_lighter response errorData =
     (case get_prop errorData ''message'' of
        Inl type_error \<Rightarrow> type_error
      | Inr m \<Rightarrow>
          new_Error (''Lighter API error: '' @ show_nat (status response) @ '' ''
                     @ statusText response @ '' - ''
                     @ js_to_string (js_or m (JStr ''Unknown error''))))"

definition account_not_found :: http_reply where
  "account_not_found =
     res_status_json 404 (JObj
       [(''error'', JStr ''Account not found''),
        (''message'', JStr ''This address has not used the Lighter protocol yet. Try a different address or create an account on Lighter first.''),
        (''code'', JNum 21100)])"

text \<open>What follows the \<open>fetch\<close> in the \<open>try\<close> block.\<close>

definition lighter_account_try :: "string \<Rightarrow> http_fetch \<Rightarrow> js_error + http_reply" where
  "lighter_account_try address fetch =
     (case fetch (account_url address) of
        Inl error \<Rightarrow> Inl error
      | Inr response \<Rightarrow>
          if \<not> ok response
          then (let errorData = (case json response of Inl _ \<Rightarrow> JObj [] | Inr d \<Rightarrow> d)
                in if status response = 400
                   then (case get_prop errorData ''code'' of
                           Inl type_error \<Rightarrow> Inl type_error
                         | Inr code \<Rightarrow>
                             if code = JNum 21100 then Inr account_not_found
                             else Inl (throw_lighter response errorData))
                   else Inl (throw_lighter response errorData))
          else (case json response of
                  Inl error \<Rightarrow> Inl error
                | Inr d \<Rightarrow> Inr (res_json d)))"

definition lighter_account :: "request \<Rightarrow> http_fetch \<Rightarrow> world \<Rightarrow> http_reply \<times> world" where
  "lighter_account req fetch w =
     (let address = params_address req
      in if \<not> valid_address address
         then (res_status_json 400 (JObj [(''error'', JStr ''Invalid Ethereum address format'')]), w)
         else
           (let w1 = w\<lparr>upstream_calls := upstream_calls w @ [HttpGet (account_url address)]\<rparr>
            in case lighter_account_try address fetch of
                 Inr reply \<Rightarrow> (reply, w1)
               | Inl error \<Rightarrow>
                   (res_status_json 500 (JObj
                      [(''error'', JStr ''Failed to fetch account data''),
                       (''details'', opt_js (message error))]), w1)))"

section \<open>The memoizer as the specification words it\<close>

text \<open>
  Follows the specification's section 4.2, not the source: \<open>getOrFetch(key, ttl, producer)\<close>
  with the freshness window \<open>ttl\<close> an argument of each call. \<open>now\<close> is the clock reading,
  \<open>producer\<close> the outcome of invoking the producer, which is logged under \<open>call\<close>. It is
  here to be compared with the routes above.
\<close>

definition spec_getOrFetch ::
  "string \<Rightarrow> int \<Rightarrow> upstream_call \<Rightarrow> js_error + js_value \<Rightarrow> int \<Rightarrow> world
     \<Rightarrow> (js_error + js_value) \<times> world" where
  "spec_getOrFetch key ttl call producer now w =
     (let fetched =
            (let w1 = w\<lparr>upstream_calls := upstream_calls w @ [call]\<rparr>
             in case producer of
                  Inl failure \<Rightarrow> (Inl failure, w1)
                | Inr payload \<Rightarrow>
                    (Inr payload,
                     w1\<lparr>cache := (cache w1)(key \<mapsto> \<lparr>data = payload, timestamp = now\<rparr>),
                        cache_ops := cache_ops w1 @ [CacheSet key]\<rparr>))
      in case cache w key of
           Some entry \<Rightarrow> if now - timestamp entry < ttl then (Inr (data entry), w) else fetched
         | None \<Rightarrow> fetched)"

section \<open>Example configurations and states\<close>

definition env0 :: env where
  "env0 = \<lparr>DUNE_API_KEY = Some ''key'', DEPOSITORS_QUERY_ID = None, TVL_QUERY_ID = None,
            DEPOSITS_TIMELINE_QUERY_ID = None\<rparr>"

definition env_unconfigured :: env where
  "env_unconfigured = \<lparr>DUNE_API_KEY = None, DEPOSITORS_QUERY_ID = None, TVL_QUERY_ID = None,
            DEPOSITS_TIMELINE_QUERY_ID = None\<rparr>"

definition req0 :: request where
  "req0 = \<lparr>query_queryId = None, body_queryId = None, params_address = ''0x12''\<rparr>"

definition req42 :: request where
  "req42 = \<lparr>query_queryId = Some ''42'', body_queryId = Some ''42'',
             params_address = ''0x00000000000000000000000000000000DeaDBeef''\<rparr>"

definition clock_at :: "int \<Rightarrow> clock" where
  "clock_at t = \<lparr>now_get = t, now_iso = ''2025-01-01T00:00:00.000Z'', now_set = t\<rparr>"

definition empty_world :: world where
  "empty_world = \<lparr>cache = Map.empty, cache_ops = [], upstream_calls = []\<rparr>"

definition old_entry :: cache_entry where
  "old_entry = \<lparr>data = JObj [(''success'', JBool True)], timestamp = 0\<rparr>"

definition seeded_world :: world where
  "seeded_world = \<lparr>cache = [''depositors_5253927'' \<mapsto> old_entry], cache_ops = [],
                    upstream_calls = []\<rparr>"

definition sdk_rows :: dune_sdk where
  "sdk_rows = (\<lambda>queryId. Inr \<lparr>result_rows = Some [JObj [(''count'', JNum 70000)]],
                              execution_time_millis = JNum 12\<rparr>)"

definition sdk_down :: dune_sdk where
  "sdk_down = (\<lambda>queryId. Inl (new_Error ''Request timed out''))"

definition fetch_down :: http_fetch where
  "fetch_down = (\<lambda>url. Inl (new_Error ''socket hang up''))"

definition fetch_no_account :: http_fetch where
  "fetch_no_account =
     (\<lambda>url. Inr \<lparr>status = 400, statusText = ''Bad Request'',
                  json = Inr (JObj [(''code'', JNum 21100), (''message'', JStr ''account not found'')])\<rparr>)"

definition sdk_payment_required :: dune_sdk where
  "sdk_payment_required =
     (\<lambda>queryId. Inl \<lparr>message = Some ''Request failed with status code 402'',
                      response_status = Some 402,
                      response_error = JStr ''Payment required''\<rparr>)"

definition sdk_status_42 :: dune_sdk where
  "sdk_status_42 =
     (\<lambda>queryId. Inl \<lparr>message = Some ''Request failed with status code 42'',
                      response_status = Some 42,
                      response_error = JUndefined\<rparr>)"

definition build_id :: "js_value \<Rightarrow> js_error + js_value" where
  "build_id d = Inr d"

section \<open>Basic facts about the cache and the depositors route\<close>

lemma getCachedData_hit_after_set:
  "now - t0 < CACHE_TTL \<Longrightarrow>
   getCachedData key now (setCachedData key d t0 w) = (d, setCachedData key d t0 w)"
  by (simp add: getCachedData_def setCachedData_def)

lemma depositors_miss_success:
  assumes "str_truthy (DUNE_API_KEY e)"
    and "qid = or_default (or_str (query_queryId req) (DEPOSITORS_QUERY_ID e)) ''5253927''"
    and "key = getCacheKey ''depositors'' qid"
    and "\<not> truthy (fst (getCachedData key (now_get clk) w))"
    and "sdk qid = Inr r"
    and "response = dune_success \<lparr>rows = (case result_rows r of Some rs \<Rightarrow> rs | None \<Rightarrow> []),
                   execution_time = execution_time_millis r, query_id = qid\<rparr> qid (now_iso clk)"
  shows "depositors e req sdk clk w =
     (res_json response,
      setCachedData key response (now_set clk)
        ((snd (getCachedData key (now_get clk) w))\<lparr>upstream_calls := upstream_calls w @ [DuneQuery qid]\<rparr>))"
  using assms
  by (simp add: depositors_def checkDuneApiKey_def depositors_handler_def Let_def fetchDuneQuery_def
      split: prod.splits) (auto simp: getCachedData_def split: option.splits if_splits)

lemma depositors_hit:
  assumes "str_truthy (DUNE_API_KEY e)"
    and "qid = or_default (or_str (query_queryId req) (DEPOSITORS_QUERY_ID e)) ''5253927''"
    and "key = getCacheKey ''depositors'' qid"
    and "getCachedData key (now_get clk) w = (d, w')"
    and "truthy d"
  shows "depositors e req sdk clk w = (res_json d, w')"
  using assms
  by (simp add: depositors_def checkDuneApiKey_def depositors_handler_def Let_def)

lemma truthy_dune_success: "truthy (dune_success d q s)"
  by (simp add: dune_success_def)

lemma append_sep_inject:
  "c \<notin> set xs \<Longrightarrow> c \<notin> set ys \<Longrightarrow> xs @ c # p = ys @ c # q \<Longrightarrow> xs = ys \<and> p = q"
proof (induction xs arbitrary: ys)
  case Nil
  then show ?case
    by (cases ys) auto
next
  case (Cons x xs)
  then show ?case
    by (cases ys) auto
qed

lemma getCachedData_other_key:
  "k \<noteq> k' \<Longrightarrow> fst (getCachedData k now (setCachedData k' d t w)) = fst (getCachedData k now w)"
  by (simp add: getCachedData_def setCachedData_def split: option.splits)

section \<open>Basic facts about the other routes\<close>

lemma depositors_upstream_calls:
  assumes "str_truthy (DUNE_API_KEY e)"
    and "qid = or_default (or_str (query_queryId req) (DEPOSITORS_QUERY_ID e)) ''5253927''"
    and "key = getCacheKey ''depositors'' qid"
  shows "upstream_calls (snd (depositors e req sdk clk w)) =
           upstream_calls w
           @ (if truthy (fst (getCachedData key (now_get clk) w)) then [] else [DuneQuery qid])"
  using assms
  by (auto simp: depositors_def checkDuneApiKey_def depositors_handler_def Let_def
        fetchDuneQuery_def setCachedData_def getCachedData_def
        split: prod.splits sum.splits option.splits if_splits)

lemma depositors_populates:
  assumes "str_truthy (DUNE_API_KEY e)"
    and "qid = or_default (or_str (query_queryId req) (DEPOSITORS_QUERY_ID e)) ''5253927''"
    and "key = getCacheKey ''depositors'' qid"
    and "\<not> truthy (fst (getCachedData key (now_get clk) w))"
    and "sdk qid = Inr r"
  shows "cache (snd (depositors e req sdk clk w)) key =
           Some \<lparr>data = json_body (fst (depositors e req sdk clk w)), timestamp = now_set clk\<rparr>"
  using assms
  by (auto simp: depositors_def checkDuneApiKey_def depositors_handler_def Let_def
        fetchDuneQuery_def setCachedData_def res_json_def
        split: prod.splits sum.splits)

lemma or_default_nonempty: "d \<noteq> [] \<Longrightarrow> or_default a d \<noteq> []"
  by (cases a) auto

lemma tvl_upstream_calls:
  assumes "str_truthy (DUNE_API_KEY e)"
    and "qid = or_default (or_str (query_queryId req) (TVL_QUERY_ID e)) ''5253928''"
    and "key = getCacheKey ''tvl'' qid"
  shows "upstream_calls (snd (tvl e req sdk clk w)) =
           upstream_calls w
           @ (if truthy (fst (getCachedData key (now_get clk) w)) then [] else [DuneQuery qid])"
proof -
  have "qid \<noteq> []"
    unfolding assms(2) by (rule or_default_nonempty) simp
  with assms show ?thesis
    by (auto simp: tvl_def checkDuneApiKey_def tvl_handler_def Let_def
        fetchDuneQuery_def setCachedData_def getCachedData_def
        split: prod.splits sum.splits option.splits if_splits)
qed

lemma tvl_populates:
  assumes "str_truthy (DUNE_API_KEY e)"
    and "qid = or_default (or_str (query_queryId req) (TVL_QUERY_ID e)) ''5253928''"
    and "key = getCacheKey ''tvl'' qid"
    and "\<not> truthy (fst (getCachedData key (now_get clk) w))"
    and "sdk qid = Inr r"
  shows "cache (snd (tvl e req sdk clk w)) key =
           Some \<lparr>data = json_body (fst (tvl e req sdk clk w)), timestamp = now_set clk\<rparr>"
proof -
  have "qid \<noteq> []"
    unfolding assms(2) by (rule or_default_nonempty) simp
  with assms show ?thesis
    by (auto simp: tvl_def checkDuneApiKey_def tvl_handler_def Let_def
        fetchDuneQuery_def setCachedData_def res_json_def
        split: prod.splits sum.splits)
qed

lemma uncached_fetch_world:
  "snd (uncached_fetch what queryId sdk clk w) =
     w\<lparr>upstream_calls := upstream_calls w @ [DuneQuery queryId]\<rparr>"
  by (simp add: uncached_fetch_def fetchDuneQuery_def Let_def split: sum.splits)

lemma deposits_timeline_world:
  assumes "str_truthy (DUNE_API_KEY e)"
  shows "snd (deposits_timeline e req sdk clk w) =
     w\<lparr>upstream_calls := upstream_calls w @
          (case or_str (query_queryId req) (DEPOSITS_TIMELINE_QUERY_ID e) of
             Some q \<Rightarrow> if q \<noteq> [] then [DuneQuery q] else []
           | None \<Rightarrow> [])\<rparr>"
  using assms
  by (simp add: deposits_timeline_def checkDuneApiKey_def deposits_timeline_handler_def
      uncached_fetch_world split: option.splits)

lemma query_world:
  assumes "str_truthy (DUNE_API_KEY e)"
  shows "snd (query e req sdk clk w) =
     w\<lparr>upstream_calls := upstream_calls w @
          (case body_queryId req of
             Some q \<Rightarrow> if q \<noteq> [] then [DuneQuery q] else []
           | None \<Rightarrow> [])\<rparr>"
  using assms
  by (simp add: query_def checkDuneApiKey_def query_handler_def
      uncached_fetch_world split: option.splits)

lemma not_configured_shape:
  "status_code not_configured = 500
   \<and> object_keys (wire (json_body not_configured)) = [''error'', ''message'']"
  by (simp add: not_configured_def res_status_json_def)

lemma catch_500_shape:
  "status_code (catch_500 what err stamp) = 500
   \<and> object_keys (wire (json_body (catch_500 what err stamp))) = [''error'', ''message'', ''timestamp'']"
  by (simp add: catch_500_def res_status_json_def)

lemma missing_query_id_shape:
  "status_code (missing_query_id msg) = 400
   \<and> object_keys (wire (json_body (missing_query_id msg))) = [''error'', ''message'']"
  by (simp add: missing_query_id_def res_status_json_def)

lemma catch_response_sent:
  assumes "100 \<le> error_status err" and "error_status err \<le> 999"
  shows "\<exists>reply. catch_response what err stamp = Some reply
           \<and> status_code reply = error_status err
           \<and> object_keys (wire (json_body reply)) =
                (if js_or (response_error err) (opt_js (message err)) = JUndefined
                 then [''error'', ''timestamp'']
                 else [''error'', ''message'', ''timestamp''])"
  using assms
  by (simp add: catch_response_def res_status_json_def)

lemma catch_response_thrown:
  assumes "error_status err < 100 \<or> 999 < error_status err"
  shows "catch_response what err stamp = None"
  using assms
  by (auto simp: catch_response_def)

lemma unconfigured_routes:
  assumes "\<not> str_truthy (DUNE_API_KEY e)"
  shows "depositors e req sdk clk w = (not_configured, w)
         \<and> tvl e req sdk clk w = (not_configured, w)
         \<and> deposits_timeline e req sdk clk w = (Some not_configured, w)
         \<and> query e req sdk clk w = (Some not_configured, w)"
  using assms
  by (simp add: depositors_def tvl_def deposits_timeline_def query_def checkDuneApiKey_def)

lemma depositors_failure_reply:
  assumes "str_truthy (DUNE_API_KEY e)"
    and "qid = or_default (or_str (query_queryId req) (DEPOSITORS_QUERY_ID e)) ''5253927''"
    and "\<not> truthy (fst (getCachedData (getCacheKey ''depositors'' qid) (now_get clk) w))"
    and "sdk qid = Inl err"
  shows "fst (depositors e req sdk clk w) =
           catch_500 ''Failed to fetch depositors data'' err (now_iso clk)"
  using assms
  by (auto simp: depositors_def checkDuneApiKey_def depositors_handler_def Let_def
        fetchDuneQuery_def split: prod.splits)

lemma tvl_failure_reply:
  assumes "str_truthy (DUNE_API_KEY e)"
    and "qid = or_default (or_str (query_queryId req) (TVL_QUERY_ID e)) ''5253928''"
    and "\<not> truthy (fst (getCachedData (getCacheKey ''tvl'' qid) (now_get clk) w))"
    and "sdk qid = Inl err"
  shows "fst (tvl e req sdk clk w) = catch_500 ''Failed to fetch TVL data'' err (now_iso clk)"
proof -
  have "qid \<noteq> []"
    unfolding assms(2) by (rule or_default_nonempty) simp
  with assms show ?thesis
    by (auto simp: tvl_def checkDuneApiKey_def tvl_handler_def Let_def
        fetchDuneQuery_def split: prod.splits)
qed

lemma deposits_timeline_missing_id:
  assumes "str_truthy (DUNE_API_KEY e)"
    and "\<not> str_truthy (or_str (query_queryId req) (DEPOSITS_TIMELINE_QUERY_ID e))"
  shows "deposits_timeline e req sdk clk w =
     (Some (missing_query_id
        ''Please provide queryId parameter or set DEPOSITS_TIMELINE_QUERY_ID environment variable''), w)"
  using assms
  by (cases "or_str (query_queryId req) (DEPOSITS_TIMELINE_QUERY_ID e)")
     (simp_all add: deposits_timeline_def checkDuneApiKey_def deposits_timeline_handler_def)

lemma query_missing_id:
  assumes "str_truthy (DUNE_API_KEY e)"
    and "\<not> str_truthy (body_queryId req)"
  shows "query e req sdk clk w =
     (Some (missing_query_id ''Please provide queryId in request body''), w)"
  using assms
  by (cases "body_queryId req")
     (simp_all add: query_def checkDuneApiKey_def query_handler_def)

lemma deposits_timeline_failure_reply:
  assumes "str_truthy (DUNE_API_KEY e)"
    and "or_str (query_queryId req) (DEPOSITS_TIMELINE_QUERY_ID e) = Some q"
    and "q \<noteq> []"
    and "sdk q = Inl err"
  shows "fst (deposits_timeline e req sdk clk w) =
           catch_response ''Failed to fetch deposits timeline'' err (now_iso clk)"
  using assms
  by (simp add: deposits_timeline_def checkDuneApiKey_def deposits_timeline_handler_def
      uncached_fetch_def fetchDuneQuery_def Let_def)

lemma query_failure_reply:
  assumes "str_truthy (DUNE_API_KEY e)"
    and "body_queryId req = Some q"
    and "q \<noteq> []"
    and "sdk q = Inl err"
  shows "fst (query e req sdk clk w) = catch_response ''Failed to execute query'' err (now_iso clk)"
  using assms
  by (simp add: query_def checkDuneApiKey_def query_handler_def
      uncached_fetch_def fetchDuneQuery_def Let_def)

lemma lighter_exchange_stats_thrown:
  assumes "fetch exchange_stats_url = Inl failure"
  shows "status_code (fst (lighter_exchange_stats fetch build w)) = 500
         \<and> object_keys (wire (json_body (fst (lighter_exchange_stats fetch build w)))) =
             (case message failure of None \<Rightarrow> [''error''] | Some m \<Rightarrow> [''error'', ''details''])"
  using assms
  by (simp add: lighter_exchange_stats_def lighter_exchange_stats_try_def Let_def
      res_status_json_def split: option.splits)

lemma lighter_exchange_stats_not_ok:
  assumes "fetch exchange_stats_url = Inr response" and "\<not> ok response"
  shows "status_code (fst (lighter_exchange_stats fetch build w)) = 500
         \<and> object_keys (wire (json_body (fst (lighter_exchange_stats fetch build w)))) =
             [''error'', ''details'']"
  using assms
  by (simp add: lighter_exchange_stats_def lighter_exchange_stats_try_def Let_def
      res_status_json_def new_Error_def)

lemma lighter_account_not_found:
  assumes "valid_address (params_address req)"
    and "fetch (account_url (params_address req)) = Inr response"
    and "status response = 400"
    and "json response = Inr (JObj ps)"
    and "map_of ps ''code'' = Some (JNum 21100)"
  shows "fst (lighter_account req fetch w) = account_not_found"
  using assms
  by (simp add: lighter_account_def lighter_account_try_def ok_def Let_def)

lemma account_not_found_shape:
  "status_code account_not_found = 404
   \<and> object_keys (wire (json_body account_not_found)) = [''error'', ''message'', ''code'']"
  by (simp add: account_not_found_def res_status_json_def)

lemma valid_address_iff:
  "valid_address a = (\<exists>rest. a = ''0x'' @ rest \<and> length rest = 40 \<and> list_all is_hex rest)"
proof (cases a)
  case Nil
  then show ?thesis by simp
next
  case (Cons c0 t)
  then show ?thesis
    by (cases t) auto
qed

section \<open>Freshness\<close>

text \<open>
  Claim C1, as the code has it. The freshness window is the one constant \<open>CACHE_TTL\<close>; no
  window is passed with a call. A request to \<open>/api/depositors\<close> that is answered with
  status 200 leaves under its key an entry that holds the reply: the entry that was there,
  the state unchanged, when the request was served from the cache, and an entry stamped with
  the clock reading of \<open>setCachedData\<close>, after one upstream call, when it was not. A later
  request for the key whose clock reading is less than \<open>CACHE_TTL\<close> after the timestamp of
  that entry gets the very same reply and leaves the state as it was, so the cache is not
  written and no upstream call is made, whatever the upstream would have answered. In
  particular, when the first request missed the cache, its upstream call succeeded and the
  clock did not run backwards while it was served, a second request less than \<open>CACHE_TTL\<close>
  after the first gets the reply the first one stored.
\<close>

theorem depositors_fresh_hit_no_fetch:
  assumes "str_truthy (DUNE_API_KEY e)"
    and "qid = or_default (or_str (query_queryId req) (DEPOSITORS_QUERY_ID e)) ''5253927''"
    and "key = getCacheKey ''depositors'' qid"
    and "depositors e req sdk clk w = (reply, w')"
    and "status_code reply = 200"
  shows "\<exists>en. cache w' key = Some en \<and> data en = json_body reply
           \<and> (truthy (fst (getCachedData key (now_get clk) w)) \<longrightarrow>
                 cache w key = Some en \<and> w' = w)
           \<and> (\<not> truthy (fst (getCachedData key (now_get clk) w)) \<longrightarrow>
                 timestamp en = now_set clk
                 \<and> upstream_calls w' = upstream_calls w @ [DuneQuery qid])
           \<and> (now_get clk' - timestamp en < CACHE_TTL \<longrightarrow>
                 depositors e req sdk' clk' w' = (reply, w'))
           \<and> (\<not> truthy (fst (getCachedData key (now_get clk) w))
                \<and> now_get clk \<le> now_set clk
                \<and> now_get clk' - now_get clk < CACHE_TTL \<longrightarrow>
                 depositors e req sdk' clk' w' = (reply, w'))"
proof (cases "truthy (fst (getCachedData key (now_get clk) w))")
  case True
  then obtain en where en: "cache w key = Some en"
    and fresh: "now_get clk - timestamp en < CACHE_TTL"
    and tr: "truthy (data en)"
    by (auto simp: getCachedData_def split: option.splits if_splits)
  have read: "getCachedData key (now_get clk) w = (data en, w)"
    using en fresh by (simp add: getCachedData_def)
  have "depositors e req sdk clk w = (res_json (data en), w)"
    using read tr by (rule depositors_hit [OF assms(1-3)])
  with assms(4) have reply: "reply = res_json (data en)" and w': "w' = w"
    by simp_all
  have body: "data en = json_body reply"
    by (simp add: reply res_json_def)
  have again: "now_get clk' - timestamp en < CACHE_TTL \<longrightarrow>
      depositors e req sdk' clk' w' = (reply, w')"
  proof
    assume "now_get clk' - timestamp en < CACHE_TTL"
    with en have "getCachedData key (now_get clk') w = (data en, w)"
      by (simp add: getCachedData_def)
    then have "depositors e req sdk' clk' w = (res_json (data en), w)"
      using tr by (rule depositors_hit [OF assms(1-3)])
    then show "depositors e req sdk' clk' w' = (reply, w')"
      by (simp add: reply w')
  qed
  from en body True again show ?thesis
    by (auto simp: w')
next
  case False
  have "\<exists>r. sdk qid = Inr r"
  proof (cases "sdk qid")
    case (Inl err)
    have "fst (depositors e req sdk clk w) =
        catch_500 ''Failed to fetch depositors data'' err (now_iso clk)"
      using False Inl
      by (intro depositors_failure_reply [where sdk = sdk, OF assms(1,2)])
         (simp_all add: assms(3))
    with assms(4,5) show ?thesis
      by (simp add: catch_500_def res_status_json_def)
  next
    case (Inr r)
    then show ?thesis by blast
  qed
  then obtain r where r: "sdk qid = Inr r" ..
  define response where
    "response = dune_success \<lparr>rows = (case result_rows r of Some rs \<Rightarrow> rs | None \<Rightarrow> []),
        execution_time = execution_time_millis r, query_id = qid\<rparr> qid (now_iso clk)"
  define wm where
    "wm = (snd (getCachedData key (now_get clk) w))
            \<lparr>upstream_calls := upstream_calls w @ [DuneQuery qid]\<rparr>"
  define en where "en = \<lparr>data = response, timestamp = now_set clk\<rparr>"
  have first: "depositors e req sdk clk w =
      (res_json response, setCachedData key response (now_set clk) wm)"
    unfolding wm_def
    by (rule depositors_miss_success [where sdk = sdk, OF assms(1-3) False r response_def])
  with assms(4) have reply: "reply = res_json response"
    and w': "w' = setCachedData key response (now_set clk) wm"
    by simp_all
  have stored: "cache w' key = Some en"
    by (simp add: w' en_def setCachedData_def)
  have body: "data en = json_body reply"
    by (simp add: en_def reply res_json_def)
  have stamp: "timestamp en = now_set clk"
    by (simp add: en_def)
  have calls: "upstream_calls w' = upstream_calls w @ [DuneQuery qid]"
    by (simp add: w' wm_def setCachedData_def)
  have tr: "truthy response"
    unfolding response_def by (rule truthy_dune_success)
  have again: "now_get clk' - timestamp en < CACHE_TTL \<longrightarrow>
      depositors e req sdk' clk' w' = (reply, w')"
  proof
    assume "now_get clk' - timestamp en < CACHE_TTL"
    then have "now_get clk' - now_set clk < CACHE_TTL"
      by (simp add: en_def)
    then have "getCachedData key (now_get clk') w' = (response, w')"
      unfolding w' by (rule getCachedData_hit_after_set)
    then have "depositors e req sdk' clk' w' = (res_json response, w')"
      using tr by (rule depositors_hit [OF assms(1-3)])
    then show "depositors e req sdk' clk' w' = (reply, w')"
      by (simp add: reply)
  qed
  have again': "\<not> truthy (fst (getCachedData key (now_get clk) w))
                \<and> now_get clk \<le> now_set clk
                \<and> now_get clk' - now_get clk < CACHE_TTL \<longrightarrow>
                 depositors e req sdk' clk' w' = (reply, w')"
    using again stamp by auto
  from stored body False stamp calls again again' show ?thesis
    by blast
qed

theorem depositors_fresh_hit_no_fetch_witness:
  "str_truthy (DUNE_API_KEY env0)
   \<and> ''5253927'' = or_default (or_str (query_queryId req0) (DEPOSITORS_QUERY_ID env0)) ''5253927''
   \<and> ''depositors_5253927'' = getCacheKey ''depositors'' ''5253927''
   \<and> status_code (fst (depositors env0 req0 sdk_rows (clock_at 1000) empty_world)) = 200
   \<and> \<not> truthy (fst (getCachedData ''depositors_5253927'' (now_get (clock_at 1000)) empty_world))
   \<and> now_get (clock_at 1000) \<le> now_set (clock_at 1000)
   \<and> now_get (clock_at 2000) - now_get (clock_at 1000) < CACHE_TTL
   \<and> depositors env0 req0 sdk_down (clock_at 2000)
        (snd (depositors env0 req0 sdk_rows (clock_at 1000) empty_world))
       = depositors env0 req0 sdk_rows (clock_at 1000) empty_world
   \<and> status_code (fst (depositors env0 req0 sdk_down (clock_at 1000) seeded_world)) = 200
   \<and> truthy (fst (getCachedData ''depositors_5253927'' (now_get (clock_at 1000)) seeded_world))
   \<and> snd (depositors env0 req0 sdk_down (clock_at 1000) seeded_world) = seeded_world
   \<and> now_get (clock_at 2000) - timestamp old_entry < CACHE_TTL
   \<and> depositors env0 req0 sdk_down (clock_at 2000)
        (snd (depositors env0 req0 sdk_down (clock_at 1000) seeded_world))
       = depositors env0 req0 sdk_down (clock_at 1000) seeded_world"
proof -
  have h1: "str_truthy (DUNE_API_KEY env0)"
    by (simp add: env0_def)
  have h2: "''5253927'' = or_default (or_str (query_queryId req0) (DEPOSITORS_QUERY_ID env0)) ''5253927''"
    by (simp add: env0_def req0_def or_str_def)
  have h3: "''depositors_5253927'' = getCacheKey ''depositors'' ''5253927''"
    by (simp add: getCacheKey_def)
  have a4: "depositors env0 req0 sdk_rows (clock_at 1000) empty_world =
      (fst (depositors env0 req0 sdk_rows (clock_at 1000) empty_world),
       snd (depositors env0 req0 sdk_rows (clock_at 1000) empty_world))"
    by simp
  have a5: "status_code (fst (depositors env0 req0 sdk_rows (clock_at 1000) empty_world)) = 200"
    by (simp add: depositors_def checkDuneApiKey_def depositors_handler_def fetchDuneQuery_def
        getCachedData_def getCacheKey_def res_json_def or_str_def Let_def
        env0_def req0_def sdk_rows_def clock_at_def empty_world_def)
  have a6: "\<not> truthy (fst (getCachedData ''depositors_5253927'' (now_get (clock_at 1000)) empty_world))"
    by (simp add: getCachedData_def empty_world_def)
  have a7: "now_get (clock_at 1000) \<le> now_set (clock_at 1000)"
    by (simp add: clock_at_def)
  have a8: "now_get (clock_at 2000) - now_get (clock_at 1000) < CACHE_TTL"
    by (simp add: clock_at_def CACHE_TTL_def)
  have b4: "depositors env0 req0 sdk_down (clock_at 1000) seeded_world =
      (fst (depositors env0 req0 sdk_down (clock_at 1000) seeded_world),
       snd (depositors env0 req0 sdk_down (clock_at 1000) seeded_world))"
    by simp
  have b5: "status_code (fst (depositors env0 req0 sdk_down (clock_at 1000) seeded_world)) = 200"
    by (simp add: depositors_def checkDuneApiKey_def depositors_handler_def
        getCachedData_def getCacheKey_def res_json_def or_str_def Let_def CACHE_TTL_def
        env0_def req0_def clock_at_def seeded_world_def old_entry_def)
  have b6: "truthy (fst (getCachedData ''depositors_5253927'' (now_get (clock_at 1000)) seeded_world))"
    by (simp add: getCachedData_def seeded_world_def old_entry_def clock_at_def CACHE_TTL_def)
  have b7: "cache seeded_world ''depositors_5253927'' = Some old_entry"
    by (simp add: seeded_world_def)
  have b8: "now_get (clock_at 2000) - timestamp old_entry < CACHE_TTL"
    by (simp add: clock_at_def old_entry_def CACHE_TTL_def)
  from depositors_fresh_hit_no_fetch
    [where sdk = sdk_rows and sdk' = sdk_down and clk' = "clock_at 2000", OF h1 h2 h3 a4 a5]
    a6 a7 a8
  have c1: "depositors env0 req0 sdk_down (clock_at 2000)
        (snd (depositors env0 req0 sdk_rows (clock_at 1000) empty_world))
       = depositors env0 req0 sdk_rows (clock_at 1000) empty_world"
    by auto
  from depositors_fresh_hit_no_fetch
    [where sdk = sdk_down and sdk' = sdk_down and clk' = "clock_at 2000", OF h1 h2 h3 b4 b5]
  obtain en where en: "truthy (fst (getCachedData ''depositors_5253927'' (now_get (clock_at 1000)) seeded_world)) \<longrightarrow>
        cache seeded_world ''depositors_5253927'' = Some en
        \<and> snd (depositors env0 req0 sdk_down (clock_at 1000) seeded_world) = seeded_world"
    and served: "now_get (clock_at 2000) - timestamp en < CACHE_TTL \<longrightarrow>
        depositors env0 req0 sdk_down (clock_at 2000)
          (snd (depositors env0 req0 sdk_down (clock_at 1000) seeded_world))
        = (fst (depositors env0 req0 sdk_down (clock_at 1000) seeded_world),
           snd (depositors env0 req0 sdk_down (clock_at 1000) seeded_world))"
    by blast
  from en b6 b7 have same: "en = old_entry"
    and c2: "snd (depositors env0 req0 sdk_down (clock_at 1000) seeded_world) = seeded_world"
    by simp_all
  from served same b8 have c3: "depositors env0 req0 sdk_down (clock_at 2000)
        (snd (depositors env0 req0 sdk_down (clock_at 1000) seeded_world))
       = depositors env0 req0 sdk_down (clock_at 1000) seeded_world"
    by simp
  show ?thesis
    by (intro conjI) (fact h1 h2 h3 a5 a6 a7 a8 c1 b5 b6 c2 b8 c3)+
qed

text \<open>
  The wording of C1 does not hold. For a window of twelve hours passed with the call, the
  memoizer of the specification serves a second call seven hours after the first from the
  cache, and the route calls the upstream again. And a first request that is itself served
  from the cache, one millisecond before its entry expires, stores nothing: the second
  request, one millisecond later, calls the upstream.
\<close>

theorem depositors_refetches_within_the_window:
  "(25200000::int) - 0 < 43200000
   \<and> status_code (fst (depositors env0 req0 sdk_rows (clock_at 0) empty_world)) = 200
   \<and> fst (spec_getOrFetch ''depositors_5253927'' 43200000 (DuneQuery ''5253927'')
            (Inr (JStr ''second payload'')) 25200000
            (snd (depositors env0 req0 sdk_rows (clock_at 0) empty_world)))
       = Inr (json_body (fst (depositors env0 req0 sdk_rows (clock_at 0) empty_world)))
   \<and> upstream_calls (snd (spec_getOrFetch ''depositors_5253927'' 43200000 (DuneQuery ''5253927'')
            (Inr (JStr ''second payload'')) 25200000
            (snd (depositors env0 req0 sdk_rows (clock_at 0) empty_world))))
       = [DuneQuery ''5253927'']
   \<and> upstream_calls (snd (depositors env0 req0 sdk_rows (clock_at 25200000)
            (snd (depositors env0 req0 sdk_rows (clock_at 0) empty_world))))
       = [DuneQuery ''5253927'', DuneQuery ''5253927'']
   \<and> status_code (fst (depositors env0 req0 sdk_rows (clock_at 21599999) seeded_world)) = 200
   \<and> json_body (fst (depositors env0 req0 sdk_rows (clock_at 21599999) seeded_world)) = data old_entry
   \<and> upstream_calls (snd (depositors env0 req0 sdk_rows (clock_at 21599999) seeded_world)) = []
   \<and> (21600000::int) - 21599999 < CACHE_TTL
   \<and> upstream_calls (snd (depositors env0 req0 sdk_rows (clock_at 21600000)
            (snd (depositors env0 req0 sdk_rows (clock_at 21599999) seeded_world))))
       = [DuneQuery ''5253927'']"
  by (simp add: spec_getOrFetch_def depositors_def checkDuneApiKey_def depositors_handler_def
      fetchDuneQuery_def getCachedData_def setCachedData_def getCacheKey_def dune_success_def
      res_json_def or_str_def Let_def CACHE_TTL_def
      env0_def req0_def sdk_rows_def clock_at_def empty_world_def seeded_world_def old_entry_def)

section \<open>Expiry\<close>

text \<open>
  Claim C2. An entry whose age at the read is \<open>CACHE_TTL\<close> or more is treated as absent:
  \<open>getCachedData\<close> returns \<open>null\<close> and deletes it, and the route \<open>/api/depositors\<close> then
  calls the upstream again.
\<close>

theorem stale_entry_evicted_and_refetched:
  assumes "str_truthy (DUNE_API_KEY e)"
    and "qid = or_default (or_str (query_queryId req) (DEPOSITORS_QUERY_ID e)) ''5253927''"
    and "key = getCacheKey ''depositors'' qid"
    and "cache w key = Some entry"
    and "CACHE_TTL \<le> now_get clk - timestamp entry"
  shows "getCachedData key (now_get clk) w =
           (JNull, w\<lparr>cache := (cache w)(key := None),
                      cache_ops := cache_ops w @ [CacheDelete key]\<rparr>)
         \<and> upstream_calls (snd (depositors e req sdk clk w)) = upstream_calls w @ [DuneQuery qid]"
  using assms
  by (auto simp: depositors_def checkDuneApiKey_def depositors_handler_def Let_def fetchDuneQuery_def
      getCachedData_def setCachedData_def split: prod.splits sum.splits)

theorem stale_entry_evicted_and_refetched_witness:
  "str_truthy (DUNE_API_KEY env0)
   \<and> ''5253927'' = or_default (or_str (query_queryId req0) (DEPOSITORS_QUERY_ID env0)) ''5253927''
   \<and> ''depositors_5253927'' = getCacheKey ''depositors'' ''5253927''
   \<and> cache seeded_world ''depositors_5253927'' = Some old_entry
   \<and> CACHE_TTL \<le> now_get (clock_at 21600000) - timestamp old_entry
   \<and> fst (getCachedData ''depositors_5253927'' (now_get (clock_at 21600000)) seeded_world) = JNull
   \<and> cache (snd (getCachedData ''depositors_5253927'' (now_get (clock_at 21600000)) seeded_world))
        ''depositors_5253927'' = None
   \<and> upstream_calls (snd (depositors env0 req0 sdk_rows (clock_at 21600000) seeded_world))
        = [DuneQuery ''5253927'']"
proof -
  have h1: "str_truthy (DUNE_API_KEY env0)"
    by (simp add: env0_def)
  have h2: "''5253927'' = or_default (or_str (query_queryId req0) (DEPOSITORS_QUERY_ID env0)) ''5253927''"
    by (simp add: env0_def req0_def or_str_def)
  have h3: "''depositors_5253927'' = getCacheKey ''depositors'' ''5253927''"
    by (simp add: getCacheKey_def)
  have h4: "cache seeded_world ''depositors_5253927'' = Some old_entry"
    by (simp add: seeded_world_def)
  have h5: "CACHE_TTL \<le> now_get (clock_at 21600000) - timestamp old_entry"
    by (simp add: clock_at_def CACHE_TTL_def old_entry_def)
  from stale_entry_evicted_and_refetched [where sdk = sdk_rows, OF h1 h2 h3 h4 h5]
  show ?thesis
    using h1 h2 h3 h4 h5 by (simp add: seeded_world_def)
qed

section \<open>A failing upstream call\<close>

text \<open>
  Claim C3, as the code has it. When \<open>/api/depositors\<close> misses the cache and the upstream
  call fails, the reply is the \<open>catch\<close> block's, with status 500 and the failure's message;
  no entry is stored; the only change to the cache is the one the read made, which deleted
  the entry of the key if it was stale and otherwise changed nothing; the upstream call is
  logged; and the next request for the key, whenever it comes, calls the upstream again.
\<close>

theorem failed_fetch_effects:
  assumes "str_truthy (DUNE_API_KEY e)"
    and "qid = or_default (or_str (query_queryId req) (DEPOSITORS_QUERY_ID e)) ''5253927''"
    and "key = getCacheKey ''depositors'' qid"
    and "\<not> truthy (fst (getCachedData key (now_get clk) w))"
    and "sdk qid = Inl err"
    and "depositors e req sdk clk w = (reply, w')"
  shows "reply = catch_500 ''Failed to fetch depositors data'' err (now_iso clk)
         \<and> status_code reply = 500
         \<and> cache w' = (case cache w key of
                         Some en \<Rightarrow> if now_get clk - timestamp en < CACHE_TTL then cache w
                                     else (cache w)(key := None)
                       | None \<Rightarrow> cache w)
         \<and> cache_ops w' = cache_ops w @
                      (case cache w key of
                         Some en \<Rightarrow> if now_get clk - timestamp en < CACHE_TTL then []
                                     else [CacheDelete key]
                       | None \<Rightarrow> [])
         \<and> upstream_calls w' = upstream_calls w @ [DuneQuery qid]
         \<and> upstream_calls (snd (depositors e req sdk' clk' w')) = upstream_calls w' @ [DuneQuery qid]"
proof -
  define w1 where "w1 = snd (getCachedData key (now_get clk) w)"
  have first: "depositors e req sdk clk w =
      (catch_500 ''Failed to fetch depositors data'' err (now_iso clk),
       w1\<lparr>upstream_calls := upstream_calls w1 @ [DuneQuery qid]\<rparr>)"
    using assms(1-5)
    by (auto simp: depositors_def checkDuneApiKey_def depositors_handler_def Let_def
        fetchDuneQuery_def w1_def split: prod.splits)
  with assms(6) have reply: "reply = catch_500 ''Failed to fetch depositors data'' err (now_iso clk)"
    and w': "w' = w1\<lparr>upstream_calls := upstream_calls w1 @ [DuneQuery qid]\<rparr>"
    by simp_all
  have status: "status_code reply = 500"
    by (simp add: reply catch_500_def res_status_json_def)
  have c: "cache w' = (case cache w key of
                         Some en \<Rightarrow> if now_get clk - timestamp en < CACHE_TTL then cache w
                                     else (cache w)(key := None)
                       | None \<Rightarrow> cache w)"
    by (simp add: w' w1_def getCachedData_def split: option.splits)
  have ops: "cache_ops w' = cache_ops w @
                      (case cache w key of
                         Some en \<Rightarrow> if now_get clk - timestamp en < CACHE_TTL then []
                                     else [CacheDelete key]
                       | None \<Rightarrow> [])"
    by (simp add: w' w1_def getCachedData_def split: option.splits)
  have up: "upstream_calls w' = upstream_calls w @ [DuneQuery qid]"
    by (simp add: w' w1_def getCachedData_def split: option.splits)
  have still: "\<not> truthy (fst (getCachedData key (now_get clk') w'))"
    using assms(4)
    by (auto simp: w' w1_def getCachedData_def split: option.splits if_splits)
  have again: "upstream_calls (snd (depositors e req sdk' clk' w')) = upstream_calls w' @ [DuneQuery qid]"
    using assms(1-3) still
    by (auto simp: depositors_def checkDuneApiKey_def depositors_handler_def Let_def
        fetchDuneQuery_def setCachedData_def getCachedData_def
        split: prod.splits sum.splits option.splits if_splits)
  from reply status c ops up again show ?thesis
    by blast
qed

theorem failed_fetch_effects_witness:
  "str_truthy (DUNE_API_KEY env0)
   \<and> ''5253927'' = or_default (or_str (query_queryId req0) (DEPOSITORS_QUERY_ID env0)) ''5253927''
   \<and> ''depositors_5253927'' = getCacheKey ''depositors'' ''5253927''
   \<and> \<not> truthy (fst (getCachedData ''depositors_5253927'' (now_get (clock_at 21600000)) seeded_world))
   \<and> sdk_down ''5253927'' = Inl (new_Error ''Request timed out'')
   \<and> status_code (fst (depositors env0 req0 sdk_down (clock_at 21600000) seeded_world)) = 500
   \<and> upstream_calls (snd (depositors env0 req0 sdk_down (clock_at 21600000) seeded_world))
        = upstream_calls seeded_world @ [DuneQuery ''5253927'']"
proof -
  have h1: "str_truthy (DUNE_API_KEY env0)"
    by (simp add: env0_def)
  have h2: "''5253927'' = or_default (or_str (query_queryId req0) (DEPOSITORS_QUERY_ID env0)) ''5253927''"
    by (simp add: env0_def req0_def or_str_def)
  have h3: "''depositors_5253927'' = getCacheKey ''depositors'' ''5253927''"
    by (simp add: getCacheKey_def)
  have h4: "\<not> truthy (fst (getCachedData ''depositors_5253927'' (now_get (clock_at 21600000)) seeded_world))"
    by (simp add: getCachedData_def seeded_world_def old_entry_def clock_at_def CACHE_TTL_def)
  have h5: "sdk_down ''5253927'' = Inl (new_Error ''Request timed out'')"
    by (simp add: sdk_down_def)
  have h6: "depositors env0 req0 sdk_down (clock_at 21600000) seeded_world =
      (fst (depositors env0 req0 sdk_down (clock_at 21600000) seeded_world),
       snd (depositors env0 req0 sdk_down (clock_at 21600000) seeded_world))"
    by simp
  from failed_fetch_effects [where sdk = sdk_down, OF h1 h2 h3 h4 h5 h6]
  show ?thesis
    using h1 h2 h3 h4 h5 by blast
qed

text \<open>
  The wording of C3 that a stale entry is left untouched by a failed call does not hold:
  the read deletes the stale entry before the upstream is called, so after the failure the
  key has no entry.
\<close>

theorem failed_fetch_drops_stale_entry:
  "cache seeded_world ''depositors_5253927'' = Some old_entry
   \<and> status_code (fst (depositors env0 req0 sdk_down (clock_at 21600000) seeded_world)) = 500
   \<and> cache (snd (depositors env0 req0 sdk_down (clock_at 21600000) seeded_world))
        ''depositors_5253927'' = None"
  by (simp add: depositors_def checkDuneApiKey_def depositors_handler_def fetchDuneQuery_def
      getCachedData_def getCacheKey_def catch_500_def res_status_json_def or_str_def Let_def
      env0_def req0_def sdk_down_def clock_at_def seeded_world_def old_entry_def CACHE_TTL_def)

section \<open>Counting the mutations of the store\<close>

text \<open>
  Claim C4, as the code has it. A request to \<open>/api/depositors\<close> appends to the log of
  cache mutations first one delete, when the read finds a stale entry, and then one set,
  when the read returns nothing and the upstream call succeeds; nothing else.
\<close>

theorem depositors_cache_mutations:
  assumes "str_truthy (DUNE_API_KEY e)"
    and "qid = or_default (or_str (query_queryId req) (DEPOSITORS_QUERY_ID e)) ''5253927''"
    and "key = getCacheKey ''depositors'' qid"
  shows "cache_ops (snd (depositors e req sdk clk w)) =
           cache_ops w
           @ (case cache w key of
                Some en \<Rightarrow> if now_get clk - timestamp en < CACHE_TTL then [] else [CacheDelete key]
              | None \<Rightarrow> [])
           @ (if truthy (fst (getCachedData key (now_get clk) w)) then []
              else case sdk qid of Inl failure \<Rightarrow> [] | Inr r \<Rightarrow> [CacheSet key])"
  using assms
  by (auto simp: depositors_def checkDuneApiKey_def depositors_handler_def Let_def
        fetchDuneQuery_def setCachedData_def getCachedData_def
        split: prod.splits sum.splits option.splits if_splits)

theorem depositors_cache_mutations_witness:
  "str_truthy (DUNE_API_KEY env0)
   \<and> ''5253927'' = or_default (or_str (query_queryId req0) (DEPOSITORS_QUERY_ID env0)) ''5253927''
   \<and> ''depositors_5253927'' = getCacheKey ''depositors'' ''5253927''
   \<and> cache_ops (snd (depositors env0 req0 sdk_rows (clock_at 1000) empty_world))
       = [CacheSet ''depositors_5253927'']"
proof -
  have h1: "str_truthy (DUNE_API_KEY env0)"
    by (simp add: env0_def)
  have h2: "''5253927'' = or_default (or_str (query_queryId req0) (DEPOSITORS_QUERY_ID env0)) ''5253927''"
    by (simp add: env0_def req0_def or_str_def)
  have h3: "''depositors_5253927'' = getCacheKey ''depositors'' ''5253927''"
    by (simp add: getCacheKey_def)
  have r: "fst (getCachedData ''depositors_5253927'' (now_get (clock_at 1000)) empty_world) = JNull"
    by (simp add: getCachedData_def empty_world_def)
  from depositors_cache_mutations [where sdk = sdk_rows and clk = "clock_at 1000" and w = empty_world,
      OF h1 h2 h3]
  have "cache_ops (snd (depositors env0 req0 sdk_rows (clock_at 1000) empty_world))
       = [CacheSet ''depositors_5253927'']"
    by (simp add: r) (simp add: empty_world_def sdk_rows_def)
  with h1 h2 h3 show ?thesis
    by blast
qed

text \<open>
  The wording of C4, one mutation on success and none on failure, does not hold when the
  key has a stale entry: the refresh then deletes and sets, and a failed refresh deletes.
\<close>

theorem stale_refresh_mutates_twice:
  "cache_ops seeded_world = []
   \<and> status_code (fst (depositors env0 req0 sdk_rows (clock_at 21600000) seeded_world)) = 200
   \<and> cache_ops (snd (depositors env0 req0 sdk_rows (clock_at 21600000) seeded_world))
        = [CacheDelete ''depositors_5253927'', CacheSet ''depositors_5253927'']
   \<and> status_code (fst (depositors env0 req0 sdk_down (clock_at 21600000) seeded_world)) = 500
   \<and> cache_ops (snd (depositors env0 req0 sdk_down (clock_at 21600000) seeded_world))
        = [CacheDelete ''depositors_5253927'']"
  by (simp add: depositors_def checkDuneApiKey_def depositors_handler_def fetchDuneQuery_def
      getCachedData_def setCachedData_def getCacheKey_def catch_500_def res_status_json_def
      res_json_def or_str_def Let_def
      env0_def req0_def sdk_down_def sdk_rows_def clock_at_def seeded_world_def old_entry_def CACHE_TTL_def)

section \<open>The freshness window\<close>

text \<open>
  Claim C5, as the code has it. The freshness check of \<open>getCachedData\<close> uses the one
  constant \<open>CACHE_TTL\<close>, six hours in milliseconds, for every key: the value returned is
  the payload exactly when an entry is present and younger than 21600000 ms.
\<close>

theorem freshness_window_is_global_constant:
  "CACHE_TTL = 21600000
   \<and> fst (getCachedData key now w) =
       (case cache w key of
          Some en \<Rightarrow> if now - timestamp en < 21600000 then data en else JNull
        | None \<Rightarrow> JNull)"
  by (simp add: getCachedData_def CACHE_TTL_def split: option.splits)

text \<open>
  The wording of C5, a window passed with each call, does not hold: on an entry 2000 ms old
  the memoizer of the specification called with a window of 1000 ms invokes the producer,
  and the route returns the cached payload without an upstream call.
\<close>

theorem route_ignores_per_call_ttl:
  "fst (spec_getOrFetch ''depositors_5253927'' 1000 (DuneQuery ''5253927'')
          (Inr (JStr ''fresh rows'')) 2000 seeded_world) = Inr (JStr ''fresh rows'')
   \<and> upstream_calls (snd (spec_getOrFetch ''depositors_5253927'' 1000 (DuneQuery ''5253927'')
          (Inr (JStr ''fresh rows'')) 2000 seeded_world)) = [DuneQuery ''5253927'']
   \<and> json_body (fst (depositors env0 req0 sdk_rows (clock_at 2000) seeded_world)) = data old_entry
   \<and> upstream_calls (snd (depositors env0 req0 sdk_rows (clock_at 2000) seeded_world)) = []"
  by (simp add: spec_getOrFetch_def depositors_def checkDuneApiKey_def depositors_handler_def
      getCachedData_def getCacheKey_def res_json_def or_str_def Let_def
      env0_def req0_def clock_at_def seeded_world_def old_entry_def CACHE_TTL_def)

section \<open>Cache keys\<close>

text \<open>
  Claim C6, as the code has it. On endpoint names without an underscore, as every name the
  routes pass is, \<open>getCacheKey\<close> maps equal pairs to equal keys and distinct pairs to
  distinct keys, and storing under the key of one pair does not change what a read under
  the key of another pair returns.
\<close>

theorem getCacheKey_injective_without_underscore:
  assumes "CHR ''_'' \<notin> set endpoint" and "CHR ''_'' \<notin> set endpoint'"
  shows "(getCacheKey endpoint queryId = getCacheKey endpoint' queryId')
           = (endpoint = endpoint' \<and> queryId = queryId')
         \<and> ((endpoint, queryId) \<noteq> (endpoint', queryId') \<longrightarrow>
              fst (getCachedData (getCacheKey endpoint queryId) now
                     (setCachedData (getCacheKey endpoint' queryId') d t w))
              = fst (getCachedData (getCacheKey endpoint queryId) now w))"
proof -
  have inj: "(getCacheKey endpoint queryId = getCacheKey endpoint' queryId')
           = (endpoint = endpoint' \<and> queryId = queryId')"
    using append_sep_inject [OF assms, of queryId queryId']
    by (auto simp: getCacheKey_def)
  then show ?thesis
    by (auto simp: getCachedData_other_key)
qed

theorem getCacheKey_injective_without_underscore_witness:
  "CHR ''_'' \<notin> set ''depositors'' \<and> CHR ''_'' \<notin> set ''tvl''
   \<and> (''depositors'', ''5253927'') \<noteq> (''tvl'', ''5253927'')
   \<and> getCacheKey ''depositors'' ''5253927'' \<noteq> getCacheKey ''tvl'' ''5253927''
   \<and> fst (getCachedData (getCacheKey ''depositors'' ''5253927'') 5
            (setCachedData (getCacheKey ''tvl'' ''5253927'') (JStr ''tvl rows'') 0 empty_world))
       = fst (getCachedData (getCacheKey ''depositors'' ''5253927'') 5 empty_world)"
proof -
  have h1: "CHR ''_'' \<notin> set ''depositors''"
    by simp
  have h2: "CHR ''_'' \<notin> set ''tvl''"
    by simp
  have h3: "(''depositors'', ''5253927'') \<noteq> (''tvl'', ''5253927'')"
    by simp
  from getCacheKey_injective_without_underscore [OF h1 h2, of "''5253927''" "''5253927''"] h3
  show ?thesis
    using h1 h2 by blast
qed

text \<open>
  The wording of C6 for all pairs does not hold: an underscore in the endpoint name lets
  two distinct pairs meet in one key.
\<close>

theorem getCacheKey_collision:
  "getCacheKey ''tvl_history'' ''1'' = getCacheKey ''tvl'' ''history_1''
   \<and> (''tvl_history'', ''1'') \<noteq> (''tvl'', ''history_1'')"
  by (simp add: getCacheKey_def)

section \<open>Which routes use the cache\<close>

text \<open>
  Claim C7, as the code has it. With the API key configured, \<open>/api/depositors\<close> and
  \<open>/api/tvl\<close> take the query identifier from the request, else from the environment, else
  a built-in default; they call the upstream exactly when the cache read under the key of
  (endpoint, identifier) returns nothing, and after a successful call the cache holds the
  reply under that key. \<open>/api/deposits-timeline\<close> (identifier from the request, else the
  environment) and \<open>POST /api/query\<close> (identifier from the body only) call the upstream
  whenever an identifier is present and never read or write the cache.
\<close>

theorem routes_and_cache:
  assumes "str_truthy (DUNE_API_KEY e)"
    and "qd = or_default (or_str (query_queryId req) (DEPOSITORS_QUERY_ID e)) ''5253927''"
    and "qt = or_default (or_str (query_queryId req) (TVL_QUERY_ID e)) ''5253928''"
    and "kd = getCacheKey ''depositors'' qd"
    and "kt = getCacheKey ''tvl'' qt"
  shows "upstream_calls (snd (depositors e req sdk clk w)) =
           upstream_calls w
           @ (if truthy (fst (getCachedData kd (now_get clk) w)) then [] else [DuneQuery qd])
     \<and> (\<not> truthy (fst (getCachedData kd (now_get clk) w)) \<and> (\<exists>r. sdk qd = Inr r) \<longrightarrow>
          cache (snd (depositors e req sdk clk w)) kd =
            Some \<lparr>data = json_body (fst (depositors e req sdk clk w)), timestamp = now_set clk\<rparr>)
     \<and> upstream_calls (snd (tvl e req sdk clk w)) =
           upstream_calls w
           @ (if truthy (fst (getCachedData kt (now_get clk) w)) then [] else [DuneQuery qt])
     \<and> (\<not> truthy (fst (getCachedData kt (now_get clk) w)) \<and> (\<exists>r. sdk qt = Inr r) \<longrightarrow>
          cache (snd (tvl e req sdk clk w)) kt =
            Some \<lparr>data = json_body (fst (tvl e req sdk clk w)), timestamp = now_set clk\<rparr>)
     \<and> snd (deposits_timeline e req sdk clk w) =
          w\<lparr>upstream_calls := upstream_calls w @
             (case or_str (query_queryId req) (DEPOSITS_TIMELINE_QUERY_ID e) of
                Some q \<Rightarrow> if q \<noteq> [] then [DuneQuery q] else []
              | None \<Rightarrow> [])\<rparr>
     \<and> snd (query e req sdk clk w) =
          w\<lparr>upstream_calls := upstream_calls w @
             (case body_queryId req of
                Some q \<Rightarrow> if q \<noteq> [] then [DuneQuery q] else []
              | None \<Rightarrow> [])\<rparr>"
proof -
  note d1 = depositors_upstream_calls [where sdk = sdk, OF assms(1,2,4)]
  have d2: "\<not> truthy (fst (getCachedData kd (now_get clk) w)) \<and> (\<exists>r. sdk qd = Inr r) \<longrightarrow>
          cache (snd (depositors e req sdk clk w)) kd =
            Some \<lparr>data = json_body (fst (depositors e req sdk clk w)), timestamp = now_set clk\<rparr>"
    using depositors_populates [where sdk = sdk, OF assms(1,2,4)] by blast
  note t1 = tvl_upstream_calls [where sdk = sdk, OF assms(1,3,5)]
  have t2: "\<not> truthy (fst (getCachedData kt (now_get clk) w)) \<and> (\<exists>r. sdk qt = Inr r) \<longrightarrow>
          cache (snd (tvl e req sdk clk w)) kt =
            Some \<lparr>data = json_body (fst (tvl e req sdk clk w)), timestamp = now_set clk\<rparr>"
    using tvl_populates [where sdk = sdk, OF assms(1,3,5)] by blast
  note u1 = deposits_timeline_world [OF assms(1)]
  note u2 = query_world [OF assms(1)]
  from d1 d2 t1 t2 u1 u2 show ?thesis
    by blast
qed

theorem routes_and_cache_witness:
  "str_truthy (DUNE_API_KEY env0)
   \<and> ''5253927'' = or_default (or_str (query_queryId req0) (DEPOSITORS_QUERY_ID env0)) ''5253927''
   \<and> ''5253928'' = or_default (or_str (query_queryId req0) (TVL_QUERY_ID env0)) ''5253928''
   \<and> ''depositors_5253927'' = getCacheKey ''depositors'' ''5253927''
   \<and> ''tvl_5253928'' = getCacheKey ''tvl'' ''5253928''
   \<and> \<not> truthy (fst (getCachedData ''depositors_5253927'' (now_get (clock_at 1000)) empty_world))
   \<and> \<not> truthy (fst (getCachedData ''tvl_5253928'' (now_get (clock_at 1000)) empty_world))
   \<and> (\<exists>r. sdk_rows ''5253927'' = Inr r) \<and> (\<exists>r. sdk_rows ''5253928'' = Inr r)
   \<and> cache (snd (depositors env0 req0 sdk_rows (clock_at 1000) empty_world)) ''depositors_5253927'' =
        Some \<lparr>data = json_body (fst (depositors env0 req0 sdk_rows (clock_at 1000) empty_world)),
              timestamp = now_set (clock_at 1000)\<rparr>
   \<and> cache (snd (tvl env0 req0 sdk_rows (clock_at 1000) empty_world)) ''tvl_5253928'' =
        Some \<lparr>data = json_body (fst (tvl env0 req0 sdk_rows (clock_at 1000) empty_world)),
              timestamp = now_set (clock_at 1000)\<rparr>"
proof -
  have h1: "str_truthy (DUNE_API_KEY env0)"
    by (simp add: env0_def)
  have h2: "''5253927'' = or_default (or_str (query_queryId req0) (DEPOSITORS_QUERY_ID env0)) ''5253927''"
    by (simp add: env0_def req0_def or_str_def)
  have h3: "''5253928'' = or_default (or_str (query_queryId req0) (TVL_QUERY_ID env0)) ''5253928''"
    by (simp add: env0_def req0_def or_str_def)
  have h4: "''depositors_5253927'' = getCacheKey ''depositors'' ''5253927''"
    by (simp add: getCacheKey_def)
  have h5: "''tvl_5253928'' = getCacheKey ''tvl'' ''5253928''"
    by (simp add: getCacheKey_def)
  have m1: "\<not> truthy (fst (getCachedData ''depositors_5253927'' (now_get (clock_at 1000)) empty_world))"
    by (simp add: getCachedData_def empty_world_def)
  have m2: "\<not> truthy (fst (getCachedData ''tvl_5253928'' (now_get (clock_at 1000)) empty_world))"
    by (simp add: getCachedData_def empty_world_def)
  have s1: "\<exists>r. sdk_rows ''5253927'' = Inr r"
    by (simp add: sdk_rows_def)
  have s2: "\<exists>r. sdk_rows ''5253928'' = Inr r"
    by (simp add: sdk_rows_def)
  from routes_and_cache [where sdk = sdk_rows and clk = "clock_at 1000" and w = empty_world,
      OF h1 h2 h3 h4 h5] m1 m2 s1 s2
  have "cache (snd (depositors env0 req0 sdk_rows (clock_at 1000) empty_world)) ''depositors_5253927'' =
        Some \<lparr>data = json_body (fst (depositors env0 req0 sdk_rows (clock_at 1000) empty_world)),
              timestamp = now_set (clock_at 1000)\<rparr>
   \<and> cache (snd (tvl env0 req0 sdk_rows (clock_at 1000) empty_world)) ''tvl_5253928'' =
        Some \<lparr>data = json_body (fst (tvl env0 req0 sdk_rows (clock_at 1000) empty_world)),
              timestamp = now_set (clock_at 1000)\<rparr>"
    by blast
  with h1 h2 h3 h4 h5 m1 m2 s1 s2 show ?thesis
    by blast
qed

text \<open>
  The wording of C7 for every data endpoint does not hold: \<open>/api/deposits-timeline\<close>
  calls the upstream on each request and stores nothing.
\<close>

theorem uncached_routes_bypass_cache:
  "map_option status_code (fst (deposits_timeline env0 req42 sdk_rows (clock_at 1000) empty_world))
        = Some 200
   \<and> upstream_calls (snd (deposits_timeline env0 req42 sdk_rows (clock_at 1000) empty_world))
        = [DuneQuery ''42'']
   \<and> cache_ops (snd (deposits_timeline env0 req42 sdk_rows (clock_at 1000) empty_world)) = []
   \<and> cache (snd (deposits_timeline env0 req42 sdk_rows (clock_at 1000) empty_world))
        (getCacheKey ''deposits-timeline'' ''42'') = None
   \<and> upstream_calls (snd (deposits_timeline env0 req42 sdk_rows (clock_at 2000)
        (snd (deposits_timeline env0 req42 sdk_rows (clock_at 1000) empty_world))))
        = [DuneQuery ''42'', DuneQuery ''42'']"
  by (simp add: deposits_timeline_def checkDuneApiKey_def deposits_timeline_handler_def
      uncached_fetch_def fetchDuneQuery_def res_json_def or_str_def Let_def
      env0_def req42_def sdk_rows_def clock_at_def empty_world_def)

section \<open>Replies on failure\<close>

text \<open>
  Claim C8, as the code has it. The fields named are those of the body as \<open>JSON.stringify\<close>
  writes it. A missing API key is answered by the middleware, before the handler and so
  before any fetch, with status 500 and the fields \<open>error, message\<close>. A failed upstream
  call of \<open>/api/depositors\<close> or \<open>/api/tvl\<close> gives status 500 and the fields
  \<open>error, message, timestamp\<close>. On \<open>/api/deposits-timeline\<close> and \<open>POST /api/query\<close> a
  missing query identifier gives status 400 and the fields \<open>error, message\<close> without any
  fetch; a failed upstream call is answered with the status \<open>error.response?.status || 500\<close>
  when that is from 100 to 999, the body having the fields \<open>error, message, timestamp\<close>, or
  \<open>error, timestamp\<close> when the error carries no message at all (stated for a status that
  carries a body: 200 or more and not 204, 205 or 304), and is not answered at all for any
  other status. A failure of \<open>/api/lighter-exchange-stats\<close> gives status 500 and the fields
  \<open>error, details\<close>, or \<open>error\<close> alone when the thrown value has no message. Status 404 is
  the reply of \<open>/api/lighter-account\<close> to an upstream 400 whose body carries the code 21100.
\<close>

theorem failure_replies:
  "(\<not> str_truthy (DUNE_API_KEY e) \<longrightarrow>
      depositors e req sdk clk w = (not_configured, w)
      \<and> tvl e req sdk clk w = (not_configured, w)
      \<and> deposits_timeline e req sdk clk w = (Some not_configured, w)
      \<and> query e req sdk clk w = (Some not_configured, w))
   \<and> status_code not_configured = 500
   \<and> object_keys (wire (json_body not_configured)) = [''error'', ''message'']
   \<and> (str_truthy (DUNE_API_KEY e)
        \<and> qd = or_default (or_str (query_queryId req) (DEPOSITORS_QUERY_ID e)) ''5253927''
        \<and> \<not> truthy (fst (getCachedData (getCacheKey ''depositors'' qd) (now_get clk) w))
        \<and> sdk qd = Inl err \<longrightarrow>
      fst (depositors e req sdk clk w) =
        catch_500 ''Failed to fetch depositors data'' err (now_iso clk))
   \<and> (str_truthy (DUNE_API_KEY e)
        \<and> qt = or_default (or_str (query_queryId req) (TVL_QUERY_ID e)) ''5253928''
        \<and> \<not> truthy (fst (getCachedData (getCacheKey ''tvl'' qt) (now_get clk) w))
        \<and> sdk qt = Inl err \<longrightarrow>
      fst (tvl e req sdk clk w) = catch_500 ''Failed to fetch TVL data'' err (now_iso clk))
   \<and> status_code (catch_500 what err stamp) = 500
   \<and> object_keys (wire (json_body (catch_500 what err stamp))) = [''error'', ''message'', ''timestamp'']
   \<and> (str_truthy (DUNE_API_KEY e)
        \<and> \<not> str_truthy (or_str (query_queryId req) (DEPOSITS_TIMELINE_QUERY_ID e)) \<longrightarrow>
      deposits_timeline e req sdk clk w =
        (Some (missing_query_id
           ''Please provide queryId parameter or set DEPOSITS_TIMELINE_QUERY_ID environment variable''), w))
   \<and> (str_truthy (DUNE_API_KEY e) \<and> \<not> str_truthy (body_queryId req) \<longrightarrow>
      query e req sdk clk w =
        (Some (missing_query_id ''Please provide queryId in request body''), w))
   \<and> status_code (missing_query_id msg) = 400
   \<and> object_keys (wire (json_body (missing_query_id msg))) = [''error'', ''message'']
   \<and> (str_truthy (DUNE_API_KEY e)
        \<and> or_str (query_queryId req) (DEPOSITS_TIMELINE_QUERY_ID e) = Some q \<and> q \<noteq> []
        \<and> sdk q = Inl err \<longrightarrow>
      fst (deposits_timeline e req sdk clk w) =
        catch_response ''Failed to fetch deposits timeline'' err (now_iso clk))
   \<and> (str_truthy (DUNE_API_KEY e) \<and> body_queryId req = Some q \<and> q \<noteq> [] \<and> sdk q = Inl err \<longrightarrow>
      fst (query e req sdk clk w) = catch_response ''Failed to execute query'' err (now_iso clk))
   \<and> error_status err =
        (case response_status err of Some n \<Rightarrow> if n \<noteq> 0 then n else 500 | None \<Rightarrow> 500)
   \<and> (100 \<le> error_status err \<and> error_status err \<le> 999 \<longrightarrow>
        (\<exists>reply. catch_response what err stamp = Some reply
           \<and> status_code reply = error_status err))
   \<and> (200 \<le> error_status err \<and> error_status err \<le> 999
        \<and> error_status err \<noteq> 204 \<and> error_status err \<noteq> 205 \<and> error_status err \<noteq> 304 \<longrightarrow>
        (\<exists>reply. catch_response what err stamp = Some reply
           \<and> object_keys (wire (json_body reply)) =
                (if js_or (response_error err) (opt_js (message err)) = JUndefined
                 then [''error'', ''timestamp'']
                 else [''error'', ''message'', ''timestamp''])))
   \<and> (error_status err < 100 \<or> 999 < error_status err \<longrightarrow>
        catch_response what err stamp = None)
   \<and> (fetch exchange_stats_url = Inl failure \<longrightarrow>
      status_code (fst (lighter_exchange_stats fetch build w)) = 500
      \<and> object_keys (wire (json_body (fst (lighter_exchange_stats fetch build w)))) =
          (case message failure of None \<Rightarrow> [''error''] | Some m \<Rightarrow> [''error'', ''details'']))
   \<and> (fetch exchange_stats_url = Inr response \<and> \<not> ok response \<longrightarrow>
      status_code (fst (lighter_exchange_stats fetch build w)) = 500
      \<and> object_keys (wire (json_body (fst (lighter_exchange_stats fetch build w)))) =
          [''error'', ''details''])
   \<and> (valid_address (params_address req)
        \<and> fetch (account_url (params_address req)) = Inr response
        \<and> status response = 400
        \<and> json response = Inr (JObj ps) \<and> map_of ps ''code'' = Some (JNum 21100) \<longrightarrow>
      fst (lighter_account req fetch w) = account_not_found)
   \<and> status_code account_not_found = 404"
proof -
  have c1: "\<not> str_truthy (DUNE_API_KEY e) \<longrightarrow>
      depositors e req sdk clk w = (not_configured, w)
      \<and> tvl e req sdk clk w = (not_configured, w)
      \<and> deposits_timeline e req sdk clk w = (Some not_configured, w)
      \<and> query e req sdk clk w = (Some not_configured, w)"
    using unconfigured_routes by blast
  have c2: "str_truthy (DUNE_API_KEY e)
        \<and> qd = or_default (or_str (query_queryId req) (DEPOSITORS_QUERY_ID e)) ''5253927''
        \<and> \<not> truthy (fst (getCachedData (getCacheKey ''depositors'' qd) (now_get clk) w))
        \<and> sdk qd = Inl err \<longrightarrow>
      fst (depositors e req sdk clk w) =
        catch_500 ''Failed to fetch depositors data'' err (now_iso clk)"
    using depositors_failure_reply [where sdk = sdk] by blast
  have c3: "str_truthy (DUNE_API_KEY e)
        \<and> qt = or_default (or_str (query_queryId req) (TVL_QUERY_ID e)) ''5253928''
        \<and> \<not> truthy (fst (getCachedData (getCacheKey ''tvl'' qt) (now_get clk) w))
        \<and> sdk qt = Inl err \<longrightarrow>
      fst (tvl e req sdk clk w) = catch_500 ''Failed to fetch TVL data'' err (now_iso clk)"
    using tvl_failure_reply [where sdk = sdk] by blast
  have c4: "str_truthy (DUNE_API_KEY e)
        \<and> \<not> str_truthy (or_str (query_queryId req) (DEPOSITS_TIMELINE_QUERY_ID e)) \<longrightarrow>
      deposits_timeline e req sdk clk w =
        (Some (missing_query_id
           ''Please provide queryId parameter or set DEPOSITS_TIMELINE_QUERY_ID environment variable''), w)"
    using deposits_timeline_missing_id by blast
  have c5: "str_truthy (DUNE_API_KEY e) \<and> \<not> str_truthy (body_queryId req) \<longrightarrow>
      query e req sdk clk w =
        (Some (missing_query_id ''Please provide queryId in request body''), w)"
    using query_missing_id by blast
  have c6: "str_truthy (DUNE_API_KEY e)
        \<and> or_str (query_queryId req) (DEPOSITS_TIMELINE_QUERY_ID e) = Some q \<and> q \<noteq> []
        \<and> sdk q = Inl err \<longrightarrow>
      fst (deposits_timeline e req sdk clk w) =
        catch_response ''Failed to fetch deposits timeline'' err (now_iso clk)"
    using deposits_timeline_failure_reply [where sdk = sdk] by blast
  have c7: "str_truthy (DUNE_API_KEY e) \<and> body_queryId req = Some q \<and> q \<noteq> [] \<and> sdk q = Inl err \<longrightarrow>
      fst (query e req sdk clk w) = catch_response ''Failed to execute query'' err (now_iso clk)"
    using query_failure_reply [where sdk = sdk] by blast
  have r0: "error_status err =
        (case response_status err of Some n \<Rightarrow> if n \<noteq> 0 then n else 500 | None \<Rightarrow> 500)"
    by (simp add: error_status_def)
  have r1: "100 \<le> error_status err \<and> error_status err \<le> 999 \<longrightarrow>
        (\<exists>reply. catch_response what err stamp = Some reply
           \<and> status_code reply = error_status err)"
    using catch_response_sent [of err what stamp] by blast
  have r2: "200 \<le> error_status err \<and> error_status err \<le> 999
        \<and> error_status err \<noteq> 204 \<and> error_status err \<noteq> 205 \<and> error_status err \<noteq> 304 \<longrightarrow>
        (\<exists>reply. catch_response what err stamp = Some reply
           \<and> object_keys (wire (json_body reply)) =
                (if js_or (response_error err) (opt_js (message err)) = JUndefined
                 then [''error'', ''timestamp'']
                 else [''error'', ''message'', ''timestamp'']))"
  proof
    assume a: "200 \<le> error_status err \<and> error_status err \<le> 999
        \<and> error_status err \<noteq> 204 \<and> error_status err \<noteq> 205 \<and> error_status err \<noteq> 304"
    then have "100 \<le> error_status err" and "error_status err \<le> 999"
      by simp_all
    from catch_response_sent [OF this, of what stamp]
    show "\<exists>reply. catch_response what err stamp = Some reply
           \<and> object_keys (wire (json_body reply)) =
                (if js_or (response_error err) (opt_js (message err)) = JUndefined
                 then [''error'', ''timestamp'']
                 else [''error'', ''message'', ''timestamp''])"
      by blast
  qed
  have r3: "error_status err < 100 \<or> 999 < error_status err \<longrightarrow>
        catch_response what err stamp = None"
    using catch_response_thrown by blast
  have x1: "fetch exchange_stats_url = Inl failure \<longrightarrow>
      status_code (fst (lighter_exchange_stats fetch build w)) = 500
      \<and> object_keys (wire (json_body (fst (lighter_exchange_stats fetch build w)))) =
          (case message failure of None \<Rightarrow> [''error''] | Some m \<Rightarrow> [''error'', ''details''])"
    using lighter_exchange_stats_thrown [where fetch = fetch] by blast
  have x2: "fetch exchange_stats_url = Inr response \<and> \<not> ok response \<longrightarrow>
      status_code (fst (lighter_exchange_stats fetch build w)) = 500
      \<and> object_keys (wire (json_body (fst (lighter_exchange_stats fetch build w)))) =
          [''error'', ''details'']"
    using lighter_exchange_stats_not_ok [where fetch = fetch] by blast
  have c9: "valid_address (params_address req)
        \<and> fetch (account_url (params_address req)) = Inr response
        \<and> status response = 400
        \<and> json response = Inr (JObj ps) \<and> map_of ps ''code'' = Some (JNum 21100) \<longrightarrow>
      fst (lighter_account req fetch w) = account_not_found"
    using lighter_account_not_found [where fetch = fetch] by blast
  have n1: "status_code not_configured = 500"
    and n2: "object_keys (wire (json_body not_configured)) = [''error'', ''message'']"
    using not_configured_shape by simp_all
  have k1: "status_code (catch_500 what err stamp) = 500"
    and k2: "object_keys (wire (json_body (catch_500 what err stamp))) = [''error'', ''message'', ''timestamp'']"
    using catch_500_shape [of what err stamp] by simp_all
  have m1: "status_code (missing_query_id msg) = 400"
    and m2: "object_keys (wire (json_body (missing_query_id msg))) = [''error'', ''message'']"
    using missing_query_id_shape [of msg] by simp_all
  have a1: "status_code account_not_found = 404"
    using account_not_found_shape by simp
  show ?thesis
    by (intro conjI) (fact c1 n1 n2 c2 c3 k1 k2 c4 c5 m1 m2 c6 c7 r0 r1 r2 r3 x1 x2 c9 a1)+
qed

theorem failure_replies_witness:
  "\<not> str_truthy (DUNE_API_KEY env_unconfigured)
   \<and> query env_unconfigured req42 sdk_rows (clock_at 1000) empty_world
        = (Some not_configured, empty_world)
   \<and> str_truthy (DUNE_API_KEY env0)
   \<and> ''5253927'' = or_default (or_str (query_queryId req0) (DEPOSITORS_QUERY_ID env0)) ''5253927''
   \<and> \<not> truthy (fst (getCachedData (getCacheKey ''depositors'' ''5253927'') (now_get (clock_at 1000)) empty_world))
   \<and> ''5253928'' = or_default (or_str (query_queryId req0) (TVL_QUERY_ID env0)) ''5253928''
   \<and> \<not> truthy (fst (getCachedData (getCacheKey ''tvl'' ''5253928'') (now_get (clock_at 1000)) empty_world))
   \<and> sdk_down ''5253927'' = Inl (new_Error ''Request timed out'')
   \<and> sdk_down ''5253928'' = Inl (new_Error ''Request timed out'')
   \<and> fst (depositors env0 req0 sdk_down (clock_at 1000) empty_world) =
        catch_500 ''Failed to fetch depositors data'' (new_Error ''Request timed out'')
          (now_iso (clock_at 1000))
   \<and> fst (tvl env0 req0 sdk_down (clock_at 1000) empty_world) =
        catch_500 ''Failed to fetch TVL data'' (new_Error ''Request timed out'')
          (now_iso (clock_at 1000))
   \<and> \<not> str_truthy (or_str (query_queryId req0) (DEPOSITS_TIMELINE_QUERY_ID env0))
   \<and> \<not> str_truthy (body_queryId req0)
   \<and> deposits_timeline env0 req0 sdk_down (clock_at 1000) empty_world =
        (Some (missing_query_id
           ''Please provide queryId parameter or set DEPOSITS_TIMELINE_QUERY_ID environment variable''),
         empty_world)
   \<and> query env0 req0 sdk_down (clock_at 1000) empty_world =
        (Some (missing_query_id ''Please provide queryId in request body''), empty_world)
   \<and> or_str (query_queryId req42) (DEPOSITS_TIMELINE_QUERY_ID env0) = Some ''42''
   \<and> body_queryId req42 = Some ''42''
   \<and> ''42'' \<noteq> []
   \<and> sdk_payment_required ''42'' =
        Inl \<lparr>message = Some ''Request failed with status code 402'', response_status = Some 402,
             response_error = JStr ''Payment required''\<rparr>
   \<and> error_status \<lparr>message = Some ''Request failed with status code 402'', response_status = Some 402,
             response_error = JStr ''Payment required''\<rparr> = 402
   \<and> map_option status_code
        (fst (deposits_timeline env0 req42 sdk_payment_required (clock_at 1000) empty_world)) = Some 402
   \<and> map_option status_code
        (fst (query env0 req42 sdk_payment_required (clock_at 1000) empty_world)) = Some 402
   \<and> map_option (\<lambda>reply. object_keys (wire (json_body reply)))
        (fst (query env0 req42 sdk_payment_required (clock_at 1000) empty_world))
        = Some [''error'', ''message'', ''timestamp'']
   \<and> sdk_status_42 ''42'' =
        Inl \<lparr>message = Some ''Request failed with status code 42'', response_status = Some 42,
             response_error = JUndefined\<rparr>
   \<and> error_status \<lparr>message = Some ''Request failed with status code 42'', response_status = Some 42,
             response_error = JUndefined\<rparr> < 100
   \<and> fst (deposits_timeline env0 req42 sdk_status_42 (clock_at 1000) empty_world) = None
   \<and> fetch_down exchange_stats_url = Inl (new_Error ''socket hang up'')
   \<and> status_code (fst (lighter_exchange_stats fetch_down build_id empty_world)) = 500
   \<and> fetch_no_account exchange_stats_url =
        Inr \<lparr>status = 400, statusText = ''Bad Request'',
             json = Inr (JObj [(''code'', JNum 21100), (''message'', JStr ''account not found'')])\<rparr>
   \<and> \<not> ok \<lparr>status = 400, statusText = ''Bad Request'',
             json = Inr (JObj [(''code'', JNum 21100), (''message'', JStr ''account not found'')])\<rparr>
   \<and> status_code (fst (lighter_exchange_stats fetch_no_account build_id empty_world)) = 500
   \<and> valid_address (params_address req42)
   \<and> fetch_no_account (account_url (params_address req42)) =
        Inr \<lparr>status = 400, statusText = ''Bad Request'',
             json = Inr (JObj [(''code'', JNum 21100), (''message'', JStr ''account not found'')])\<rparr>
   \<and> map_of [(''code'', JNum 21100), (''message'', JStr ''account not found'')] ''code'' = Some (JNum 21100)
   \<and> fst (lighter_account req42 fetch_no_account empty_world) = account_not_found"
proof -
  define pay where
    "pay = \<lparr>message = Some ''Request failed with status code 402'', response_status = Some 402,
             response_error = JStr ''Payment required''\<rparr>"
  define odd_status where
    "odd_status = \<lparr>message = Some ''Request failed with status code 42'', response_status = Some 42,
             response_error = JUndefined\<rparr>"
  define bad where
    "bad = \<lparr>status = 400, statusText = ''Bad Request'',
             json = Inr (JObj [(''code'', JNum 21100), (''message'', JStr ''account not found'')])\<rparr>"
  have u: "\<not> str_truthy (DUNE_API_KEY env_unconfigured)"
    by (simp add: env_unconfigured_def)
  have k: "str_truthy (DUNE_API_KEY env0)"
    by (simp add: env0_def)
  have qd: "''5253927'' = or_default (or_str (query_queryId req0) (DEPOSITORS_QUERY_ID env0)) ''5253927''"
    by (simp add: env0_def req0_def or_str_def)
  have qt: "''5253928'' = or_default (or_str (query_queryId req0) (TVL_QUERY_ID env0)) ''5253928''"
    by (simp add: env0_def req0_def or_str_def)
  have md: "\<not> truthy (fst (getCachedData (getCacheKey ''depositors'' ''5253927'') (now_get (clock_at 1000)) empty_world))"
    by (simp add: getCachedData_def empty_world_def)
  have mt: "\<not> truthy (fst (getCachedData (getCacheKey ''tvl'' ''5253928'') (now_get (clock_at 1000)) empty_world))"
    by (simp add: getCachedData_def empty_world_def)
  have fd: "sdk_down ''5253927'' = Inl (new_Error ''Request timed out'')"
    and ft: "sdk_down ''5253928'' = Inl (new_Error ''Request timed out'')"
    by (simp_all add: sdk_down_def)
  have nd: "\<not> str_truthy (or_str (query_queryId req0) (DEPOSITS_TIMELINE_QUERY_ID env0))"
    by (simp add: or_str_def req0_def env0_def)
  have nq: "\<not> str_truthy (body_queryId req0)"
    by (simp add: req0_def)
  have id1: "or_str (query_queryId req42) (DEPOSITS_TIMELINE_QUERY_ID env0) = Some ''42''"
    by (simp add: or_str_def req42_def)
  have id2: "body_queryId req42 = Some ''42''"
    by (simp add: req42_def)
  have ne: "''42'' \<noteq> []"
    by simp
  have fp: "sdk_payment_required ''42'' = Inl pay"
    by (simp add: sdk_payment_required_def pay_def)
  have ep: "error_status pay = 402"
    by (simp add: error_status_def pay_def)
  have fo: "sdk_status_42 ''42'' = Inl odd_status"
    by (simp add: sdk_status_42_def odd_status_def)
  have eo: "error_status odd_status < 100"
    by (simp add: error_status_def odd_status_def)
  have jp: "js_or (response_error pay) (opt_js (message pay)) \<noteq> JUndefined"
    by (simp add: pay_def js_or_def)
  have xd: "fetch_down exchange_stats_url = Inl (new_Error ''socket hang up'')"
    by (simp add: fetch_down_def)
  have xn: "fetch_no_account exchange_stats_url = Inr bad"
    by (simp add: fetch_no_account_def bad_def)
  have nb: "\<not> ok bad"
    by (simp add: ok_def bad_def)
  have va: "valid_address (params_address req42)"
    by (simp add: req42_def is_hex_def)
  have fa: "fetch_no_account (account_url (params_address req42)) = Inr bad"
    by (simp add: fetch_no_account_def bad_def)
  have sb: "status bad = 400"
    and jb: "json bad = Inr (JObj [(''code'', JNum 21100), (''message'', JStr ''account not found'')])"
    by (simp_all add: bad_def)
  have mp: "map_of [(''code'', JNum 21100), (''message'', JStr ''account not found'')] ''code'' = Some (JNum 21100)"
    by simp
  note unconfigured = failure_replies
    [where e = env_unconfigured and req = req42 and sdk = sdk_rows and clk = "clock_at 1000"
       and w = empty_world, THEN conjunct1, rule_format, OF u]
  note down = failure_replies
    [where e = env0 and req = req0 and sdk = sdk_down and clk = "clock_at 1000" and w = empty_world
       and qd = "''5253927''" and qt = "''5253928''" and err = "new_Error ''Request timed out''"
       and fetch = fetch_down and build = build_id
       and failure = "new_Error ''socket hang up''"]
  note pay_req = failure_replies
    [where e = env0 and req = req42 and sdk = sdk_payment_required and clk = "clock_at 1000"
       and w = empty_world and q = "''42''" and err = pay and fetch = fetch_no_account
       and build = build_id and response = bad
       and stamp = "now_iso (clock_at 1000)"
       and ps = "[(''code'', JNum 21100), (''message'', JStr ''account not found'')]"]
  note odd_req = failure_replies
    [where e = env0 and req = req42 and sdk = sdk_status_42 and clk = "clock_at 1000"
       and w = empty_world and q = "''42''" and err = odd_status
       and stamp = "now_iso (clock_at 1000)"]
  have w1: "query env_unconfigured req42 sdk_rows (clock_at 1000) empty_world
        = (Some not_configured, empty_world)"
    using unconfigured by simp
  have w2: "fst (depositors env0 req0 sdk_down (clock_at 1000) empty_world) =
        catch_500 ''Failed to fetch depositors data'' (new_Error ''Request timed out'')
          (now_iso (clock_at 1000))"
    using down [THEN conjunct2, THEN conjunct2, THEN conjunct2, THEN conjunct1] k qd md fd by blast
  have w3: "fst (tvl env0 req0 sdk_down (clock_at 1000) empty_world) =
        catch_500 ''Failed to fetch TVL data'' (new_Error ''Request timed out'')
          (now_iso (clock_at 1000))"
    using down [THEN conjunct2, THEN conjunct2, THEN conjunct2, THEN conjunct2, THEN conjunct1] k qt mt ft by blast
  have w4: "deposits_timeline env0 req0 sdk_down (clock_at 1000) empty_world =
        (Some (missing_query_id
           ''Please provide queryId parameter or set DEPOSITS_TIMELINE_QUERY_ID environment variable''),
         empty_world)"
    using down [THEN conjunct2, THEN conjunct2, THEN conjunct2, THEN conjunct2, THEN conjunct2, THEN conjunct2, THEN conjunct2, THEN conjunct1] k nd by blast
  have w5: "query env0 req0 sdk_down (clock_at 1000) empty_world =
        (Some (missing_query_id ''Please provide queryId in request body''), empty_world)"
    using down [THEN conjunct2, THEN conjunct2, THEN conjunct2, THEN conjunct2, THEN conjunct2, THEN conjunct2, THEN conjunct2, THEN conjunct2, THEN conjunct1] k nq by blast
  have d6: "fst (deposits_timeline env0 req42 sdk_payment_required (clock_at 1000) empty_world) =
        catch_response ''Failed to fetch deposits timeline'' pay (now_iso (clock_at 1000))"
    using pay_req [THEN conjunct2, THEN conjunct2, THEN conjunct2, THEN conjunct2, THEN conjunct2, THEN conjunct2, THEN conjunct2, THEN conjunct2, THEN conjunct2, THEN conjunct2, THEN conjunct2, THEN conjunct1] k id1 ne fp by blast
  have d7: "fst (query env0 req42 sdk_payment_required (clock_at 1000) empty_world) =
        catch_response ''Failed to execute query'' pay (now_iso (clock_at 1000))"
    using pay_req [THEN conjunct2, THEN conjunct2, THEN conjunct2, THEN conjunct2, THEN conjunct2, THEN conjunct2, THEN conjunct2, THEN conjunct2, THEN conjunct2, THEN conjunct2, THEN conjunct2, THEN conjunct2, THEN conjunct1] k id2 ne fp by blast
  have w6: "map_option status_code
        (fst (deposits_timeline env0 req42 sdk_payment_required (clock_at 1000) empty_world)) = Some 402"
    using pay_req [where what = "''Failed to fetch deposits timeline''", THEN conjunct2, THEN conjunct2, THEN conjunct2, THEN conjunct2, THEN conjunct2, THEN conjunct2, THEN conjunct2, THEN conjunct2, THEN conjunct2, THEN conjunct2, THEN conjunct2, THEN conjunct2, THEN conjunct2, THEN conjunct2, THEN conjunct1] ep d6 by auto
  have w7: "map_option status_code
        (fst (query env0 req42 sdk_payment_required (clock_at 1000) empty_world)) = Some 402"
    using pay_req [where what = "''Failed to execute query''", THEN conjunct2, THEN conjunct2, THEN conjunct2, THEN conjunct2, THEN conjunct2, THEN conjunct2, THEN conjunct2, THEN conjunct2, THEN conjunct2, THEN conjunct2, THEN conjunct2, THEN conjunct2, THEN conjunct2, THEN conjunct2, THEN conjunct1] ep d7 by auto
  have w7k: "map_option (\<lambda>reply. object_keys (wire (json_body reply)))
        (fst (query env0 req42 sdk_payment_required (clock_at 1000) empty_world))
        = Some [''error'', ''message'', ''timestamp'']"
    using pay_req [where what = "''Failed to execute query''", THEN conjunct2, THEN conjunct2, THEN conjunct2, THEN conjunct2, THEN conjunct2, THEN conjunct2, THEN conjunct2, THEN conjunct2, THEN conjunct2, THEN conjunct2, THEN conjunct2, THEN conjunct2, THEN conjunct2, THEN conjunct2, THEN conjunct2, THEN conjunct1] ep d7 jp by auto
  have d8: "fst (deposits_timeline env0 req42 sdk_status_42 (clock_at 1000) empty_world) =
        catch_response ''Failed to fetch deposits timeline'' odd_status (now_iso (clock_at 1000))"
    using odd_req [THEN conjunct2, THEN conjunct2, THEN conjunct2, THEN conjunct2, THEN conjunct2, THEN conjunct2, THEN conjunct2, THEN conjunct2, THEN conjunct2, THEN conjunct2, THEN conjunct2, THEN conjunct1] k id1 ne fo by blast
  have w8: "fst (deposits_timeline env0 req42 sdk_status_42 (clock_at 1000) empty_world) = None"
    using odd_req [where what = "''Failed to fetch deposits timeline''", THEN conjunct2, THEN conjunct2, THEN conjunct2, THEN conjunct2, THEN conjunct2, THEN conjunct2, THEN conjunct2, THEN conjunct2, THEN conjunct2, THEN conjunct2, THEN conjunct2, THEN conjunct2, THEN conjunct2, THEN conjunct2, THEN conjunct2, THEN conjunct2, THEN conjunct1] eo d8 by simp
  have w9: "status_code (fst (lighter_exchange_stats fetch_down build_id empty_world)) = 500"
    using down [THEN conjunct2, THEN conjunct2, THEN conjunct2, THEN conjunct2, THEN conjunct2, THEN conjunct2, THEN conjunct2, THEN conjunct2, THEN conjunct2, THEN conjunct2, THEN conjunct2, THEN conjunct2, THEN conjunct2, THEN conjunct2, THEN conjunct2, THEN conjunct2, THEN conjunct2, THEN conjunct1] xd by blast
  have w10: "status_code (fst (lighter_exchange_stats fetch_no_account build_id empty_world)) = 500"
    using pay_req [THEN conjunct2, THEN conjunct2, THEN conjunct2, THEN conjunct2, THEN conjunct2, THEN conjunct2, THEN conjunct2, THEN conjunct2, THEN conjunct2, THEN conjunct2, THEN conjunct2, THEN conjunct2, THEN conjunct2, THEN conjunct2, THEN conjunct2, THEN conjunct2, THEN conjunct2, THEN conjunct2, THEN conjunct1] xn nb by blast
  have w11: "fst (lighter_account req42 fetch_no_account empty_world) = account_not_found"
    using pay_req [THEN conjunct2, THEN conjunct2, THEN conjunct2, THEN conjunct2, THEN conjunct2, THEN conjunct2, THEN conjunct2, THEN conjunct2, THEN conjunct2, THEN conjunct2, THEN conjunct2, THEN conjunct2, THEN conjunct2, THEN conjunct2, THEN conjunct2, THEN conjunct2, THEN conjunct2, THEN conjunct2, THEN conjunct2, THEN conjunct1] va fa sb jb mp by blast
  show ?thesis
    unfolding pay_def [symmetric] odd_status_def [symmetric] bad_def [symmetric]
    by (intro conjI)
       (fact u w1 k qd md qt mt fd ft w2 w3 nd nq w4 w5 id1 id2 ne fp ep w6 w7 w7k fo eo w8
             xd w9 xn nb w10 va fa mp w11)+
qed

text \<open>
  The wording of C8, one shape and status 500 for every endpoint, does not hold: two of the
  failure replies have no \<open>timestamp\<close> field, one of them has \<open>details\<close> in place of
  \<open>message\<close>, \<open>/api/deposits-timeline\<close> passes on the status 402 of the upstream error,
  and for an upstream error with the status 42 it sends no reply at all.
\<close>

theorem exchange_stats_failure_shape:
  "status_code (fst (lighter_exchange_stats fetch_down build_id empty_world)) = 500
   \<and> object_keys (wire (json_body (fst (lighter_exchange_stats fetch_down build_id empty_world))))
        = [''error'', ''details'']
   \<and> status_code (fst (depositors env_unconfigured req0 sdk_rows (clock_at 1000) empty_world)) = 500
   \<and> object_keys (wire (json_body
        (fst (depositors env_unconfigured req0 sdk_rows (clock_at 1000) empty_world))))
        = [''error'', ''message'']
   \<and> map_option status_code
        (fst (deposits_timeline env0 req42 sdk_payment_required (clock_at 1000) empty_world))
        = Some 402
   \<and> fst (deposits_timeline env0 req42 sdk_status_42 (clock_at 1000) empty_world) = None"
  by (simp add: lighter_exchange_stats_def lighter_exchange_stats_try_def fetch_down_def
      res_status_json_def depositors_def checkDuneApiKey_def not_configured_def env_unconfigured_def
      deposits_timeline_def deposits_timeline_handler_def uncached_fetch_def fetchDuneQuery_def
      catch_response_def error_status_def or_str_def Let_def env0_def req42_def
      sdk_payment_required_def sdk_status_42_def new_Error_def)

section \<open>Address validation\<close>

text \<open>
  Claim C9. \<open>/api/lighter-account/:address\<close> answers an address that is not \<open>0x\<close>
  followed by exactly 40 hexadecimal characters with status 400 and the error
  \<open>Invalid Ethereum address format\<close>, the state unchanged and so no upstream call made; and
  for a valid address an upstream response with status 400 whose JSON body has the code 21100
  is answered with status 404.
\<close>

theorem lighter_account_validation:
  "(\<not> valid_address (params_address req) \<longrightarrow>
      lighter_account req fetch w =
        (res_status_json 400 (JObj [(''error'', JStr ''Invalid Ethereum address format'')]), w))
   \<and> (valid_address (params_address req)
        \<and> fetch (account_url (params_address req)) = Inr response
        \<and> status response = 400
        \<and> json response = Inr (JObj ps) \<and> map_of ps ''code'' = Some (JNum 21100) \<longrightarrow>
      status_code (fst (lighter_account req fetch w)) = 404)
   \<and> valid_address a = (\<exists>rest. a = ''0x'' @ rest \<and> length rest = 40 \<and> list_all is_hex rest)"
proof -
  have bad: "\<not> valid_address (params_address req) \<longrightarrow>
      lighter_account req fetch w =
        (res_status_json 400 (JObj [(''error'', JStr ''Invalid Ethereum address format'')]), w)"
    by (simp add: lighter_account_def)
  have gone: "valid_address (params_address req)
        \<and> fetch (account_url (params_address req)) = Inr response
        \<and> status response = 400
        \<and> json response = Inr (JObj ps) \<and> map_of ps ''code'' = Some (JNum 21100) \<longrightarrow>
      status_code (fst (lighter_account req fetch w)) = 404"
    by (simp add: lighter_account_def lighter_account_try_def ok_def Let_def
        account_not_found_def res_status_json_def)
  from bad gone valid_address_iff show ?thesis
    by blast
qed

theorem lighter_account_validation_witness:
  "\<not> valid_address (params_address req0)
   \<and> lighter_account req0 fetch_no_account empty_world =
        (res_status_json 400 (JObj [(''error'', JStr ''Invalid Ethereum address format'')]), empty_world)
   \<and> valid_address (params_address req42)
   \<and> fetch_no_account (account_url (params_address req42)) =
        Inr \<lparr>status = 400, statusText = ''Bad Request'',
             json = Inr (JObj [(''code'', JNum 21100), (''message'', JStr ''account not found'')])\<rparr>
   \<and> map_of [(''code'', JNum 21100), (''message'', JStr ''account not found'')] ''code'' = Some (JNum 21100)
   \<and> status_code (fst (lighter_account req42 fetch_no_account empty_world)) = 404"
proof -
  have h1: "\<not> valid_address (params_address req0)"
    by (simp add: req0_def)
  have h2: "valid_address (params_address req42)"
    by (simp add: req42_def is_hex_def)
  have h3: "fetch_no_account (account_url (params_address req42)) =
        Inr \<lparr>status = 400, statusText = ''Bad Request'',
             json = Inr (JObj [(''code'', JNum 21100), (''message'', JStr ''account not found'')])\<rparr>"
    by (simp add: fetch_no_account_def)
  have h4: "map_of [(''code'', JNum 21100), (''message'', JStr ''account not found'')] ''code'' = Some (JNum 21100)"
    by simp
  have a: "lighter_account req0 fetch_no_account empty_world =
        (res_status_json 400 (JObj [(''error'', JStr ''Invalid Ethereum address format'')]), empty_world)"
    using lighter_account_validation [of req0 fetch_no_account empty_world] h1 by blast
  have b: "status_code (fst (lighter_account req42 fetch_no_account empty_world)) = 404"
    using lighter_account_validation [of req42 fetch_no_account _
        "\<lparr>status = 400, statusText = ''Bad Request'',
             json = Inr (JObj [(''code'', JNum 21100), (''message'', JStr ''account not found'')])\<rparr>"
        "[(''code'', JNum 21100), (''message'', JStr ''account not found'')]"] h2 h3 h4
    by simp
  from h1 a h2 h3 h4 b show ?thesis
    by blast
qed

section \<open>The read is not pure\<close>

text \<open>
  Claim C10. After \<open>getCachedData(key)\<close> the cache holds at \<open>key\<close> either a fresh entry,
  whose payload is the value returned, or nothing, \<open>null\<close> being returned; and an entry
  whose age is \<open>CACHE_TTL\<close> or more is deleted by the read, a mutation of the store.
\<close>

theorem getCachedData_fresh_or_absent:
  "getCachedData key now w = (r, w') \<Longrightarrow>
     ((\<exists>en. cache w' key = Some en \<and> now - timestamp en < CACHE_TTL \<and> r = data en)
        \<or> (cache w' key = None \<and> r = JNull))
     \<and> (\<forall>en. cache w key = Some en \<and> CACHE_TTL \<le> now - timestamp en \<longrightarrow>
            cache w' = (cache w)(key := None) \<and> cache_ops w' = cache_ops w @ [CacheDelete key])"
  by (auto simp: getCachedData_def split: option.splits if_splits)

theorem getCachedData_fresh_or_absent_witness:
  "getCachedData ''depositors_5253927'' 21600000 seeded_world =
     (JNull, seeded_world\<lparr>cache := (cache seeded_world)(''depositors_5253927'' := None),
                          cache_ops := cache_ops seeded_world @ [CacheDelete ''depositors_5253927'']\<rparr>)
   \<and> cache seeded_world ''depositors_5253927'' = Some old_entry
   \<and> CACHE_TTL \<le> 21600000 - timestamp old_entry
   \<and> cache_ops (seeded_world\<lparr>cache := (cache seeded_world)(''depositors_5253927'' := None),
                          cache_ops := cache_ops seeded_world @ [CacheDelete ''depositors_5253927'']\<rparr>)
        = cache_ops seeded_world @ [CacheDelete ''depositors_5253927'']"
proof -
  have h1: "getCachedData ''depositors_5253927'' 21600000 seeded_world =
     (JNull, seeded_world\<lparr>cache := (cache seeded_world)(''depositors_5253927'' := None),
                          cache_ops := cache_ops seeded_world @ [CacheDelete ''depositors_5253927'']\<rparr>)"
    by (simp add: getCachedData_def seeded_world_def old_entry_def CACHE_TTL_def)
  have h2: "cache seeded_world ''depositors_5253927'' = Some old_entry"
    by (simp add: seeded_world_def)
  have h3: "CACHE_TTL \<le> 21600000 - timestamp old_entry"
    by (simp add: CACHE_TTL_def old_entry_def)
  from getCachedData_fresh_or_absent [OF h1] h2 h3
  have "cache_ops (seeded_world\<lparr>cache := (cache seeded_world)(''depositors_5253927'' := None),
                          cache_ops := cache_ops seeded_world @ [CacheDelete ''depositors_5253927'']\<rparr>)
        = cache_ops seeded_world @ [CacheDelete ''depositors_5253927'']"
    by blast
  with h1 h2 h3 show ?thesis
    by blast
qed

end
